theory Spec2Isabelle
  imports Main "HOL-Library.Sublist"
begin

section \<open>Strings: the library functions the parser calls\<close>

text \<open>
  A Go string is a sequence of bytes, here a \<^typ>\<open>string\<close> (a list of 8-bit
  characters). The functions of this section model the Go standard library as its
  documentation describes it, for the arguments the program passes.
\<close>

text \<open>
  \<open>strings.Split(s, sep)\<close> for a separator of one byte, which is all the program passes
  (\<open>","\<close>, \<open>"\t"\<close> and \<open>":"\<close>): the pieces between the separators, in order. The result is
  never empty; an input without separator gives the one-element list of the input.
\<close>

fun Split :: "string \<Rightarrow> char \<Rightarrow> string list" where
  "Split [] sep = [[]]"
| "Split (c # cs) sep =
     (if c = sep then [] # Split cs sep
      else (case Split cs sep of [] \<Rightarrow> [[c]] | w # ws \<Rightarrow> (c # w) # ws))"

text \<open>\<open>strings.Join(elems, sep)\<close>: the elements with \<open>sep\<close> between neighbours.\<close>

fun Join :: "string list \<Rightarrow> string \<Rightarrow> string" where
  "Join [] sep = []"
| "Join [x] sep = x"
| "Join (x # y # ys) sep = x @ sep @ Join (y # ys) sep"

text \<open>
  White space as \<open>unicode.IsSpace\<close> defines it, in UTF-8: the six ASCII bytes
  tab, line feed, vertical tab, form feed, carriage return and space, then U+0085, U+00A0,
  U+1680, U+2000 to U+200A, U+2028, U+2029, U+202F, U+205F and U+3000.
\<close>

definition spaceRunes :: "string list" where
  "spaceRunes =
     [[CHR 0x09], [CHR 0x0A], [CHR 0x0B], [CHR 0x0C], [CHR 0x0D], [CHR 0x20],
      [CHR 0xC2, CHR 0x85], [CHR 0xC2, CHR 0xA0],
      [CHR 0xE1, CHR 0x9A, CHR 0x80], [CHR 0xE2, CHR 0x80, CHR 0x80],
      [CHR 0xE2, CHR 0x80, CHR 0x81], [CHR 0xE2, CHR 0x80, CHR 0x82],
      [CHR 0xE2, CHR 0x80, CHR 0x83], [CHR 0xE2, CHR 0x80, CHR 0x84],
      [CHR 0xE2, CHR 0x80, CHR 0x85], [CHR 0xE2, CHR 0x80, CHR 0x86],
      [CHR 0xE2, CHR 0x80, CHR 0x87], [CHR 0xE2, CHR 0x80, CHR 0x88],
      [CHR 0xE2, CHR 0x80, CHR 0x89], [CHR 0xE2, CHR 0x80, CHR 0x8A],
      [CHR 0xE2, CHR 0x80, CHR 0xA8], [CHR 0xE2, CHR 0x80, CHR 0xA9],
      [CHR 0xE2, CHR 0x80, CHR 0xAF], [CHR 0xE2, CHR 0x81, CHR 0x9F],
      [CHR 0xE3, CHR 0x80, CHR 0x80]]"

text \<open>
  Removing the leading runes of a string while they belong to a list of encodings: the
  loop of \<open>strings.TrimLeftFunc\<close>, which decodes one rune at a time.
\<close>

fun dropRunes :: "string list \<Rightarrow> string \<Rightarrow> string" where
  "dropRunes encs [] = []"
| "dropRunes encs (c # cs) =
     (case List.find (\<lambda>e. e \<noteq> [] \<and> prefix e (c # cs)) encs of
        None \<Rightarrow> c # cs
      | Some e \<Rightarrow> dropRunes encs (drop (length e - 1) cs))"

definition trimLeft :: "string \<Rightarrow> string" where
  "trimLeft s = dropRunes spaceRunes s"

text \<open>The same from the end of the string (\<open>strings.TrimRightFunc\<close>).\<close>

definition trimRight :: "string \<Rightarrow> string" where
  "trimRight s = rev (dropRunes (map rev spaceRunes) (rev s))"

text \<open>
  \<open>strings.TrimSpace(s)\<close>: \<open>s\<close> without its leading and trailing white space; the
  leading white space goes first.
\<close>

definition TrimSpace :: "string \<Rightarrow> string" where
  "TrimSpace s = trimRight (trimLeft s)"

section \<open>Decimal numbers: \<open>strconv.ParseInt(s, 10, 64)\<close>\<close>

text \<open>
  Go's \<open>int64\<close> and \<open>uint64\<close> are modelled as integers and naturals; the places where
  the source relies on the 64-bit range write the bound out.
\<close>

type_synonym int64 = int
type_synonym uint64 = nat

text \<open>The two causes \<open>strconv\<close> reports: \<open>ErrSyntax\<close> and \<open>ErrRange\<close>.\<close>

datatype NumErr = ErrSyntax | ErrRange

definition isDigit :: "char \<Rightarrow> bool" where
  "isDigit c = (48 \<le> (of_char c :: nat) \<and> (of_char c :: nat) \<le> 57)"

text \<open>
  The loop of \<open>strconv.ParseUint\<close> in base 10 and 64 bits: a byte that is not a decimal
  digit is a syntax error; \<open>n \<ge> cutoff\<close> (the product would overflow) is a range error,
  and so is a sum that wraps, which the source detects as \<open>n1 < n\<close> and which is
  \<open>2 ^ 64 \<le> n1\<close> on naturals. \<open>cutoff\<close> is \<open>maxUint64 / 10 + 1\<close>.
\<close>

definition cutoff10 :: uint64 where
  "cutoff10 = 1844674407370955162"

fun parseDigits :: "uint64 \<Rightarrow> string \<Rightarrow> NumErr + uint64" where
  "parseDigits n [] = Inr n"
| "parseDigits n (c # cs) =
     (if \<not> isDigit c then Inl ErrSyntax
      else if cutoff10 \<le> n then Inl ErrRange
      else let n1 = n * 10 + (of_char c - 48)
           in if 18446744073709551616 \<le> n1 then Inl ErrRange else parseDigits n1 cs)"

definition ParseUint :: "string \<Rightarrow> NumErr + uint64" where
  "ParseUint s = (if s = [] then Inl ErrSyntax else parseDigits 0 s)"

text \<open>
  \<open>strconv.ParseInt\<close>: an optional sign, then \<open>ParseUint\<close>; the magnitude must fit the
  signed range (\<open>2 ^ 63\<close> is allowed only after a minus sign).
\<close>

definition ParseInt :: "string \<Rightarrow> NumErr + int64" where
  "ParseInt s =
     (case s of
        [] \<Rightarrow> Inl ErrSyntax
      | c # cs \<Rightarrow>
          (let neg = (c = CHR ''-'');
               ds = (if c = CHR ''+'' \<or> c = CHR ''-'' then cs else s)
           in case ParseUint ds of
                Inl e \<Rightarrow> Inl e
              | Inr un \<Rightarrow>
                  if \<not> neg \<and> 9223372036854775808 \<le> un then Inl ErrRange
                  else if neg \<and> 9223372036854775808 < un then Inl ErrRange
                  else Inr (if neg then - int un else int un)))"

section \<open>The result model (package \<open>parser\<close>, types)\<close>

type_synonym StatusVersion = int

definition Version1 :: StatusVersion where "Version1 = 1"
definition Version2 :: StatusVersion where "Version2 = 2"
definition Version3 :: StatusVersion where "Version3 = 3"

record ServerConfig =
  ID :: string
  Local :: string
  Port :: string
  Proto :: string
  Dev :: string

record Client =
  CommonName :: string
  RealAddress :: string
  VirtualAddress :: string
  VirtualIPv6Address :: string
  BytesReceived :: int64
  BytesSent :: int64
  ConnectedSince :: string
  ConnectedSinceTime :: int64
  Username :: string
  ClientID :: int64
  PeerID :: int64
  DataCipher :: string

text \<open>
  The fields of \<open>Route\<close> that share a name with a field of \<open>Client\<close> carry the prefix
  \<open>Route\<close> here.
\<close>

record Route =
  RouteVirtualAddress :: string
  RouteCommonName :: string
  RouteRealAddress :: string
  LastRef :: string
  LastRefTime :: int64

record Status =
  Server :: "ServerConfig option"
  Title :: string
  Time :: "string list"
  ClientList :: "Client list"
  RoutingTable :: "Route list"

text \<open>
  The underlying cause of a \<open>ParseError\<close>: one of the two \<open>fmt.Errorf\<close> messages about the
  number of fields (\<open>"expected at least %d fields, got %d"\<close> and
  \<open>"expected %d fields, got %d"\<close>) or the \<open>*strconv.NumError\<close> of \<open>ParseInt\<close>, which
  carries the text it was given.
\<close>

datatype Cause =
    ExpectedAtLeast nat nat
  | Expected nat nat
  | NumError string NumErr

text \<open>\<open>ParseError\<close>; its field \<open>Field\<close> is \<open>FieldName\<close> here.\<close>

record ParseError =
  Line :: int
  FieldName :: string
  Value :: string
  Err :: Cause

section \<open>Record decoders\<close>

text \<open>
  The parameter \<open>fields\<close> of the decoders is \<open>flds\<close> here (the record package owns
  the name \<open>fields\<close>).
\<close>

text \<open>\<open>handleTitle\<close>: the status after the call and the error returned (\<open>None\<close> is nil).\<close>

definition handleTitle :: "string list \<Rightarrow> Status \<Rightarrow> int \<Rightarrow> Status \<times> ParseError option" where
  "handleTitle flds status lineNum =
     (if length flds < 2
      then (status, Some \<lparr>Line = lineNum, FieldName = ''TITLE'', Value = Join flds '','',
                           Err = ExpectedAtLeast 2 (length flds)\<rparr>)
      else (status\<lparr>Title := flds ! 1\<rparr>, None))"

definition handleTime :: "string list \<Rightarrow> Status \<Rightarrow> int \<Rightarrow> Status \<times> ParseError option" where
  "handleTime flds status lineNum =
     (if length flds < 2
      then (status, Some \<lparr>Line = lineNum, FieldName = ''TIME'', Value = Join flds '','',
                           Err = ExpectedAtLeast 2 (length flds)\<rparr>)
      else (status\<lparr>Time := drop 1 flds\<rparr>, None))"

text \<open>
  The block the decoders repeat for every numeric field:
  \<^verbatim>\<open>if raw != "" { if val, err := strconv.ParseInt(raw, 10, 64); err != nil {
      errs = append(errs, ParseError{lineNum, name, raw, err}) } else { field = val } }\<close>
  It gives what the field of the fresh record holds afterwards (zero unless assigned) and
  what the block appends to \<open>errs\<close>.
\<close>

definition parseNumeric :: "int \<Rightarrow> string \<Rightarrow> string \<Rightarrow> int64 \<times> ParseError list" where
  "parseNumeric lineNum name raw =
     (if raw \<noteq> []
      then (case ParseInt raw of
              Inl err \<Rightarrow> (0, [\<lparr>Line = lineNum, FieldName = name, Value = raw,
                                Err = NumError raw err\<rparr>])
            | Inr val \<Rightarrow> (val, []))
      else (0, []))"

text \<open>The end of each decoder: \<open>if len(errs) > 0 { return errs[0] }; return nil\<close>.\<close>

definition firstError :: "ParseError list \<Rightarrow> ParseError option" where
  "firstError errs = (if length errs > 0 then Some (errs ! 0) else None)"

definition handleClientListV1 ::
  "string list \<Rightarrow> Status \<Rightarrow> int \<Rightarrow> Status \<times> ParseError option" where
  "handleClientListV1 flds status lineNum =
     (let expectedFields = 5 in
      if length flds < expectedFields
      then (status, Some \<lparr>Line = lineNum, FieldName = ''CLIENT_LIST_V1'',
                           Value = Join flds '','',
                           Err = Expected expectedFields (length flds)\<rparr>)
      else
        let aparts = Split (flds ! 1) (CHR '':'');
            (bytesReceived, errs1) = parseNumeric lineNum ''bytesReceived'' (flds ! 2);
            (bytesSent, errs2) = parseNumeric lineNum ''bytesSent'' (flds ! 3);
            errs = errs1 @ errs2;
            client = \<lparr>CommonName = flds ! 0, RealAddress = aparts ! 0,
                      VirtualAddress = [], VirtualIPv6Address = [],
                      BytesReceived = bytesReceived, BytesSent = bytesSent,
                      ConnectedSince = flds ! 4, ConnectedSinceTime = 0,
                      Username = [], ClientID = 0, PeerID = 0, DataCipher = []\<rparr>
        in (status\<lparr>ClientList := ClientList status @ [client]\<rparr>, firstError errs))"

definition handleClientListV2V3 ::
  "string list \<Rightarrow> Status \<Rightarrow> int \<Rightarrow> Status \<times> ParseError option" where
  "handleClientListV2V3 flds status lineNum =
     (let minFields = 12 in
      if length flds < minFields
      then (status, Some \<lparr>Line = lineNum, FieldName = ''CLIENT_LIST'',
                           Value = Join flds '','',
                           Err = ExpectedAtLeast minFields (length flds)\<rparr>)
      else
        let aparts = Split (flds ! 2) (CHR '':'');
            (bytesReceived, errs1) = parseNumeric lineNum ''bytesReceived'' (flds ! 5);
            (bytesSent, errs2) = parseNumeric lineNum ''bytesSent'' (flds ! 6);
            (connectedSinceTime, errs3) =
               parseNumeric lineNum ''connectedSinceTime'' (flds ! 8);
            (clientID, errs4) = parseNumeric lineNum ''clientId'' (flds ! 10);
            (peerID, errs5) = parseNumeric lineNum ''peerId'' (flds ! 11);
            errs = errs1 @ errs2 @ errs3 @ errs4 @ errs5;
            client = \<lparr>CommonName = flds ! 1, RealAddress = aparts ! 0,
                      VirtualAddress = flds ! 3, VirtualIPv6Address = flds ! 4,
                      BytesReceived = bytesReceived, BytesSent = bytesSent,
                      ConnectedSince = flds ! 7, ConnectedSinceTime = connectedSinceTime,
                      Username = flds ! 9, ClientID = clientID, PeerID = peerID,
                      DataCipher = (if length flds > 12 \<and> flds ! 12 \<noteq> []
                                    then flds ! 12 else [])\<rparr>
        in (status\<lparr>ClientList := ClientList status @ [client]\<rparr>, firstError errs))"

definition handleRoutingTable ::
  "string list \<Rightarrow> Status \<Rightarrow> int \<Rightarrow> Status \<times> ParseError option" where
  "handleRoutingTable flds status lineNum =
     (let expectedFields = 6 in
      if length flds < expectedFields
      then (status, Some \<lparr>Line = lineNum, FieldName = ''ROUTING_TABLE'',
                           Value = Join flds '','',
                           Err = Expected expectedFields (length flds)\<rparr>)
      else
        let aparts = Split (flds ! 3) (CHR '':'');
            (lastRefTime, errs) = parseNumeric lineNum ''lastRefTime'' (flds ! 5);
            route = \<lparr>RouteVirtualAddress = flds ! 1, RouteCommonName = flds ! 2,
                     RouteRealAddress = aparts ! 0, LastRef = flds ! 4,
                     LastRefTime = lastRefTime\<rparr>
        in (status\<lparr>RoutingTable := RoutingTable status @ [route]\<rparr>, firstError errs))"

section \<open>Line dispatcher\<close>

definition parseLine ::
  "string \<Rightarrow> Status \<Rightarrow> int \<Rightarrow> StatusVersion \<Rightarrow> char \<Rightarrow> Status \<times> ParseError option" where
  "parseLine line status lineNum version delimiter =
     (let flds = Split line delimiter in
      if length flds = 0 then (status, None)
      else if version = Version1 then handleClientListV1 flds status lineNum
      else
        let lineType = flds ! 0 in
        if lineType = ''TITLE'' then handleTitle flds status lineNum
        else if lineType = ''TIME'' then handleTime flds status lineNum
        else if lineType = ''HEADER'' then (status, None)
        else if lineType = ''CLIENT_LIST'' then handleClientListV2V3 flds status lineNum
        else if lineType = ''ROUTING_TABLE'' then handleRoutingTable flds status lineNum
        else (status, None))"

section \<open>Status parser\<close>

text \<open>
  The file system is the function \<open>os.Open\<close> consults: a path either fails to open, with
  the operating system's message, or opens to a file. A file is what \<open>bufio.Scanner\<close>
  yields from it: the lines in order, and the error \<open>scanner.Err()\<close> reports once the
  scan has stopped (\<open>None\<close> is nil).
\<close>

type_synonym OSError = string

datatype File = File (scanned: "string list") (scanErr: "OSError option")

type_synonym FileSystem = "string \<Rightarrow> OSError + File"

text \<open>
  An entry of the error list \<open>ParseFile\<close> returns: \<open>"failed to open file: %w"\<close>, a
  \<open>ParseError\<close> of a line, or \<open>"error reading file: %w"\<close>.
\<close>

datatype Error =
    OpenFailed OSError
  | LineError ParseError
  | ReadFailed OSError

text \<open>
  The scanning loop. \<open>lineNum\<close> is the counter before the line is read; the pair is
  \<open>status\<close> and \<open>parseErrors\<close>.
\<close>

fun scanLines ::
  "StatusVersion \<Rightarrow> char \<Rightarrow> int \<Rightarrow> string list \<Rightarrow> Status \<times> Error list
     \<Rightarrow> Status \<times> Error list" where
  "scanLines version delimiter lineNum [] acc = acc"
| "scanLines version delimiter lineNum (text # rest) (status, parseErrors) =
     (let lineNum' = lineNum + 1;
          line = TrimSpace text
      in if line = [] then scanLines version delimiter lineNum' rest (status, parseErrors)
         else case parseLine line status lineNum' version delimiter of
                (status', Some err) \<Rightarrow>
                   scanLines version delimiter lineNum' rest
                     (status', parseErrors @ [LineError err])
              | (status', None) \<Rightarrow>
                   scanLines version delimiter lineNum' rest (status', parseErrors))"

text \<open>The status \<open>ParseFile\<close> starts from.\<close>

definition emptyStatus :: Status where
  "emptyStatus = \<lparr>Server = None, Title = [], Time = [], ClientList = [], RoutingTable = []\<rparr>"

definition ParseFile ::
  "FileSystem \<Rightarrow> string \<Rightarrow> StatusVersion \<Rightarrow> Status option \<times> Error list" where
  "ParseFile fs filepath version =
     (case fs filepath of
        Inl err \<Rightarrow> (None, [OpenFailed err])
      | Inr file \<Rightarrow>
          (let delimiter = (if version = Version3 then CHR 0x09 else CHR '','');
               (status, parseErrors) =
                  scanLines version delimiter 0 (scanned file) (emptyStatus, [])
           in case scanErr file of
                Some err \<Rightarrow> (Some status, parseErrors @ [ReadFailed err])
              | None \<Rightarrow> (Some status, parseErrors)))"

section \<open>Command line (package \<open>main\<close>)\<close>

definition getStatusVersion :: "int \<Rightarrow> StatusVersion" where
  "getStatusVersion ver =
     (if ver = 1 then Version1
      else if ver = 2 then Version2
      else if ver = 3 then Version3
      else Version3)"

section \<open>The metrics formatter (package \<open>formatter\<close>)\<close>

text \<open>
  \<open>strings.ReplaceAll(s, old, new)\<close> for an \<open>old\<close> of one byte, which is all the formatter
  passes.
\<close>

definition ReplaceAll :: "string \<Rightarrow> char \<Rightarrow> string \<Rightarrow> string" where
  "ReplaceAll s old new = concat (map (\<lambda>c. if c = old then new else [c]) s)"

text \<open>
  \<open>sanitizeLabelValue\<close>: the backslash first, then the line feed, then the double quote.
\<close>

definition sanitizeLabelValue :: "string \<Rightarrow> string" where
  "sanitizeLabelValue value =
     (let value1 = ReplaceAll value (CHR 0x5C) [CHR 0x5C, CHR 0x5C];
          value2 = ReplaceAll value1 (CHR 0x0A) [CHR 0x5C, CHR ''n''];
          value3 = ReplaceAll value2 (CHR 0x22) [CHR 0x5C, CHR 0x22]
      in value3)"

text \<open>
  The verb \<open>%d\<close> of \<open>fmt.Sprintf\<close>: the decimal digits, after a minus sign for a negative
  number.
\<close>

fun showNat :: "nat \<Rightarrow> string" where
  "showNat n =
     (if n < 10 then [''0123456789'' ! n]
      else showNat (n div 10) @ [''0123456789'' ! (n mod 10)])"

declare showNat.simps [simp del]

definition fmtD :: "int \<Rightarrow> string" where
  "fmtD i = (if i < 0 then CHR ''-'' # showNat (nat (- i)) else showNat (nat i))"

text \<open>The result of an \<open>int64\<close> operation: the mathematical result wrapped to 64 bits.\<close>

definition wrap64 :: "int \<Rightarrow> int64" where
  "wrap64 x = (x + 9223372036854775808) mod 18446744073709551616 - 9223372036854775808"

text \<open>
  The verb \<open>%q\<close> of \<open>fmt.Sprintf\<close> (\<open>strconv.Quote\<close>) depends on Unicode's table of printable
  runes; the formatter's functions take it as the parameter \<open>q\<close>.
\<close>

definition buildClientLabels :: "(string \<Rightarrow> string) \<Rightarrow> Client \<Rightarrow> ServerConfig \<Rightarrow> string" where
  "buildClientLabels q client server =
     (let labels =
            [''common_name='' @ q (sanitizeLabelValue (CommonName client)),
             ''real_address='' @ q (sanitizeLabelValue (RealAddress client)),
             ''server_id='' @ q (sanitizeLabelValue (ID server)),
             ''virtual_address='' @ q (sanitizeLabelValue (VirtualAddress client))];
          labels' =
            (if Username client \<noteq> []
             then labels @ [''username='' @ q (sanitizeLabelValue (Username client))]
             else labels)
      in ''{'' @ Join labels' '','' @ ''}'')"

definition buildRouteLabels :: "(string \<Rightarrow> string) \<Rightarrow> Route \<Rightarrow> ServerConfig \<Rightarrow> string" where
  "buildRouteLabels q route server =
     (let labels =
            [''virtual_address='' @ q (sanitizeLabelValue (RouteVirtualAddress route)),
             ''common_name='' @ q (sanitizeLabelValue (RouteCommonName route)),
             ''real_address='' @ q (sanitizeLabelValue (RouteRealAddress route)),
             ''server_id='' @ q (sanitizeLabelValue (ID server))]
      in ''{'' @ Join labels '','' @ ''}'')"

definition buildInfoLabels :: "(string \<Rightarrow> string) \<Rightarrow> Status \<Rightarrow> ServerConfig \<Rightarrow> string" where
  "buildInfoLabels q status server =
     (let labels =
            [''title='' @ q (sanitizeLabelValue (Title status)),
             ''server_id='' @ q (sanitizeLabelValue (ID server)),
             ''server_local='' @ q (sanitizeLabelValue (Local server)),
             ''server_port='' @ q (sanitizeLabelValue (Port server)),
             ''server_proto='' @ q (sanitizeLabelValue (Proto server)),
             ''server_dev='' @ q (sanitizeLabelValue (Dev server))];
          labels' =
            (if length (Time status) > 0
             then labels @ [''updated_at='' @ q (sanitizeLabelValue (Time status ! 0))]
             else labels)
      in ''{'' @ Join labels' '','' @ ''}'')"

text \<open>
  The strings \<open>OpenMetricsFormatter.Format\<close> writes to its builder, in order: one entry for
  each \<open>sb.WriteString\<close>. \<open>now\<close> is \<open>time.Now().Unix()\<close>.
\<close>

definition formatWrites ::
  "(string \<Rightarrow> string) \<Rightarrow> int64 \<Rightarrow> ServerConfig \<Rightarrow> Status \<Rightarrow> string list" where
  "formatWrites q now server status =
     [''# HELP openvpn_client_bytes_received_total Total bytes received from client''
        @ [CHR 0x0A],
      ''# TYPE openvpn_client_bytes_received_total counter'' @ [CHR 0x0A]]
     @ map (\<lambda>client. ''openvpn_client_bytes_received_total''
                       @ buildClientLabels q client server @ '' ''
                       @ fmtD (BytesReceived client) @ [CHR 0x0A]) (ClientList status)
     @ [''# HELP openvpn_client_bytes_sent_total Total bytes sent to client'' @ [CHR 0x0A],
        ''# TYPE openvpn_client_bytes_sent_total counter'' @ [CHR 0x0A]]
     @ map (\<lambda>client. ''openvpn_client_bytes_sent_total''
                       @ buildClientLabels q client server @ '' ''
                       @ fmtD (BytesSent client) @ [CHR 0x0A]) (ClientList status)
     @ [''# HELP openvpn_client_connected_duration_seconds ''
          @ ''Time in seconds since client connected'' @ [CHR 0x0A],
        ''# TYPE openvpn_client_connected_duration_seconds gauge'' @ [CHR 0x0A]]
     @ map (\<lambda>client.
              let labels = buildClientLabels q client server;
                  duration = wrap64 (now - ConnectedSinceTime client)
              in ''openvpn_client_connected_duration_seconds'' @ labels @ '' ''
                 @ fmtD duration @ [CHR 0x0A]) (ClientList status)
     @ [''# HELP openvpn_client_connected Client connection status (1 = connected)''
          @ [CHR 0x0A],
        ''# TYPE openvpn_client_connected gauge'' @ [CHR 0x0A]]
     @ map (\<lambda>client. ''openvpn_client_connected'' @ buildClientLabels q client server
                       @ '' 1'' @ [CHR 0x0A]) (ClientList status)
     @ (let labels = [''server_id='' @ q (sanitizeLabelValue (ID server))] in
        [''# HELP openvpn_clients_connected_total Total number of connected clients''
           @ [CHR 0x0A],
         ''# TYPE openvpn_clients_connected_total gauge'' @ [CHR 0x0A],
         ''openvpn_clients_connected_total{'' @ Join labels '','' @ ''} ''
           @ fmtD (int (length (ClientList status))) @ [CHR 0x0A],
         ''# HELP openvpn_routing_entries_total Total number of routing table entries''
           @ [CHR 0x0A],
         ''# TYPE openvpn_routing_entries_total gauge'' @ [CHR 0x0A],
         ''openvpn_routing_entries_total{'' @ Join labels '','' @ ''} ''
           @ fmtD (int (length (RoutingTable status))) @ [CHR 0x0A]])
     @ [''# HELP openvpn_routing_last_ref_seconds ''
          @ ''Unix timestamp of last routing table reference'' @ [CHR 0x0A],
        ''# TYPE openvpn_routing_last_ref_seconds gauge'' @ [CHR 0x0A]]
     @ map (\<lambda>route. ''openvpn_routing_last_ref_seconds''
                      @ buildRouteLabels q route server @ '' ''
                      @ fmtD (LastRefTime route) @ [CHR 0x0A]) (RoutingTable status)
     @ [''# HELP openvpn_status_info OpenVPN status file metadata'' @ [CHR 0x0A],
        ''# TYPE openvpn_status_info gauge'' @ [CHR 0x0A],
        ''openvpn_status_info'' @ buildInfoLabels q status server @ '' 1'' @ [CHR 0x0A],
        ''# EOF'' @ [CHR 0x0A]]"

text \<open>
  \<open>OpenMetricsFormatter.Format\<close>: the builder's contents. The error it returns is always
  nil; \<open>None\<close> stands for the panic of \<open>*status.Server\<close> on a status without server.
\<close>

definition Format :: "(string \<Rightarrow> string) \<Rightarrow> int64 \<Rightarrow> Status \<Rightarrow> string option" where
  "Format q now status =
     (case Server status of
        None \<Rightarrow> None
      | Some server \<Rightarrow> Some (concat (formatWrites q now server status)))"

section \<open>The numeric-field policy, as the specification words it\<close>

text \<open>
  A decimal text: an optional sign and then one or more decimal digits. This is what the
  specification calls numeric.
\<close>

definition numericText :: "string \<Rightarrow> bool" where
  "numericText s =
     (case s of
        [] \<Rightarrow> False
      | c # cs \<Rightarrow> (let ds = (if c = CHR ''+'' \<or> c = CHR ''-'' then cs else s)
                  in ds \<noteq> [] \<and> list_all isDigit ds))"

text \<open>
  The policy for the numeric fields of one line. \<open>numeric\<close> lists, in the order the decoder
  reads them, the name of each numeric field, its raw text and the value found in the
  decoded record; \<open>err\<close> is what the decoder returns. An empty text gives 0; a text that is
  not numeric gives 0 and is rejected by \<open>ParseInt\<close>; an accepted text gives its value; the
  error returned is the one of the first field whose text is not empty and is rejected,
  and cites the field, the line and the raw text.
\<close>

definition numericPolicy ::
  "int \<Rightarrow> (string \<times> string \<times> int64) list \<Rightarrow> ParseError option \<Rightarrow> bool" where
  "numericPolicy lineNum numeric err \<longleftrightarrow>
     (\<forall>(name, raw, val) \<in> set numeric.
        (raw = [] \<longrightarrow> val = 0)
        \<and> (raw \<noteq> [] \<and> \<not> numericText raw \<longrightarrow> val = 0 \<and> isl (ParseInt raw))
        \<and> val = (case ParseInt raw of Inl e \<Rightarrow> 0 | Inr v \<Rightarrow> v))
     \<and> err =
         (case List.find (\<lambda>(name, raw, val). raw \<noteq> [] \<and> isl (ParseInt raw)) numeric of
            None \<Rightarrow> None
          | Some (name, raw, val) \<Rightarrow>
              Some \<lparr>Line = lineNum, FieldName = name, Value = raw,
                    Err = NumError raw (projl (ParseInt raw))\<rparr>)"

section \<open>What one line contributes to the error list\<close>

text \<open>
  The entries the scanning loop appends for the line it reads as number \<open>lineNum\<close>: none
  for a blank line, otherwise the error \<open>parseLine\<close> returns, if any. (\<open>parseLine\<close>
  returns the same error whatever the status it works on.)
\<close>

definition lineErrors :: "StatusVersion \<Rightarrow> char \<Rightarrow> int \<Rightarrow> string \<Rightarrow> Error list" where
  "lineErrors version delimiter lineNum entry =
     (let line = TrimSpace entry
      in if line = [] then []
         else case snd (parseLine line emptyStatus lineNum version delimiter) of
                None \<Rightarrow> []
              | Some err \<Rightarrow> [LineError err])"

section \<open>Facts about the string functions\<close>

lemma Split_not_Nil: "Split s sep \<noteq> []"
  by (induction s) (auto split: list.splits)

lemma Split_no_sep: "sep \<notin> set s \<Longrightarrow> Split s sep = [s]"
  by (induction s) auto

lemma Split_append_sep: "sep \<notin> set f \<Longrightarrow> Split (f @ sep # r) sep = f # Split r sep"
  by (induction f) auto

lemma Split_first: "Split s sep ! 0 = takeWhile (\<lambda>c. c \<noteq> sep) s"
  by (induction s) (auto split: list.splits simp: Split_not_Nil)

lemma Join_Cons: "fs \<noteq> [] \<Longrightarrow> Join (f # fs) sep = f @ sep @ Join fs sep"
  by (cases fs) auto

lemma Join_snoc: "fs \<noteq> [] \<Longrightarrow> Join (fs @ [f]) sep = Join fs sep @ sep @ f"
  by (induction fs sep rule: Join.induct) auto

lemma Split_Join:
  "fs \<noteq> [] \<Longrightarrow> \<forall>f\<in>set fs. sep \<notin> set f \<Longrightarrow> Split (Join fs [sep]) sep = fs"
proof (induction fs "[sep]" rule: Join.induct)
  case 1
  then show ?case by simp
next
  case (2 x)
  then show ?case by (simp add: Split_no_sep)
next
  case (3 x y ys)
  then show ?case by (simp add: Split_append_sep)
qed

section \<open>Facts about the decoders\<close>

lemma parseDigits_non_digit: "\<not> list_all isDigit s \<Longrightarrow> \<exists>e. parseDigits n s = Inl e"
  by (induction s arbitrary: n) (auto simp: Let_def)

lemma ParseInt_Nil: "ParseInt [] = Inl ErrSyntax"
  by (simp add: ParseInt_def)

lemma ParseInt_non_numeric: "\<not> numericText s \<Longrightarrow> isl (ParseInt s)"
proof (cases s)
  case Nil
  then show ?thesis by (simp add: ParseInt_def)
next
  case (Cons c cs)
  define ds where "ds = (if c = CHR ''+'' \<or> c = CHR ''-'' then cs else s)"
  assume "\<not> numericText s"
  then have "ds = [] \<or> \<not> list_all isDigit ds"
    unfolding numericText_def Cons ds_def Let_def by (auto split: if_splits)
  then have "\<exists>e. ParseUint ds = Inl e"
    using parseDigits_non_digit [of ds 0] by (auto simp: ParseUint_def)
  then show ?thesis
    by (auto simp: ParseInt_def Cons ds_def Let_def)
qed

lemma parseNumeric_fst:
  "fst (parseNumeric n name raw) = (case ParseInt raw of Inl e \<Rightarrow> 0 | Inr v \<Rightarrow> v)"
  by (simp add: parseNumeric_def ParseInt_Nil split: sum.splits)

lemma parseNumeric_snd:
  "snd (parseNumeric n name raw) =
     (if raw \<noteq> [] \<and> isl (ParseInt raw)
      then [\<lparr>Line = n, FieldName = name, Value = raw,
             Err = NumError raw (projl (ParseInt raw))\<rparr>]
      else [])"
  by (simp add: parseNumeric_def split: sum.splits)

lemma firstError_find:
  "firstError (concat (map (\<lambda>(name, raw, val). snd (parseNumeric n name raw)) xs)) =
     (case List.find (\<lambda>(name, raw, val). raw \<noteq> [] \<and> isl (ParseInt raw)) xs of
        None \<Rightarrow> None
      | Some (name, raw, val) \<Rightarrow>
          Some \<lparr>Line = n, FieldName = name, Value = raw,
                Err = NumError raw (projl (ParseInt raw))\<rparr>)"
proof (induction xs)
  case Nil
  then show ?case by (simp add: firstError_def)
next
  case (Cons x xs)
  obtain name raw val where x: "x = (name, raw, val)" by (cases x)
  show ?case
  proof (cases "raw \<noteq> [] \<and> isl (ParseInt raw)")
    case True
    then show ?thesis by (simp add: x parseNumeric_snd firstError_def)
  next
    case False
    then have "snd (parseNumeric n name raw) = []" by (simp add: parseNumeric_snd)
    then show ?thesis using Cons False by (auto simp: x)
  qed
qed

lemma numericPolicy_parseNumeric:
  assumes "\<forall>(name, raw, val) \<in> set xs. val = fst (parseNumeric n name raw)"
  shows "numericPolicy n xs
           (firstError (concat (map (\<lambda>(name, raw, val). snd (parseNumeric n name raw)) xs)))"
proof -
  have "(raw = [] \<longrightarrow> val = 0)
        \<and> (raw \<noteq> [] \<and> \<not> numericText raw \<longrightarrow> val = 0 \<and> isl (ParseInt raw))
        \<and> val = (case ParseInt raw of Inl e \<Rightarrow> 0 | Inr v \<Rightarrow> v)"
    if "(name, raw, val) \<in> set xs" for name raw val
  proof -
    have val: "val = (case ParseInt raw of Inl e \<Rightarrow> 0 | Inr v \<Rightarrow> v)"
      using assms that by (auto simp: parseNumeric_fst)
    have "val = 0" if "isl (ParseInt raw)"
      using that val by (cases "ParseInt raw") auto
    then show ?thesis
      using val ParseInt_non_numeric [of raw] by (auto simp: ParseInt_Nil)
  qed
  then show ?thesis
    unfolding numericPolicy_def firstError_find by auto
qed

lemma handleClientListV1_long:
  assumes "5 \<le> length flds"
  shows "handleClientListV1 flds status n =
     (status\<lparr>ClientList := ClientList status @
        [\<lparr>CommonName = flds ! 0, RealAddress = Split (flds ! 1) (CHR '':'') ! 0,
          VirtualAddress = [], VirtualIPv6Address = [],
          BytesReceived = fst (parseNumeric n ''bytesReceived'' (flds ! 2)),
          BytesSent = fst (parseNumeric n ''bytesSent'' (flds ! 3)),
          ConnectedSince = flds ! 4, ConnectedSinceTime = 0,
          Username = [], ClientID = 0, PeerID = 0, DataCipher = []\<rparr>]\<rparr>,
      firstError (snd (parseNumeric n ''bytesReceived'' (flds ! 2))
                  @ snd (parseNumeric n ''bytesSent'' (flds ! 3))))"
  using assms
  by (simp add: handleClientListV1_def Let_def split_beta del: One_nat_def)

lemma handleClientListV2V3_long:
  assumes "12 \<le> length flds"
  shows "handleClientListV2V3 flds status n =
     (status\<lparr>ClientList := ClientList status @
        [\<lparr>CommonName = flds ! 1, RealAddress = Split (flds ! 2) (CHR '':'') ! 0,
          VirtualAddress = flds ! 3, VirtualIPv6Address = flds ! 4,
          BytesReceived = fst (parseNumeric n ''bytesReceived'' (flds ! 5)),
          BytesSent = fst (parseNumeric n ''bytesSent'' (flds ! 6)),
          ConnectedSince = flds ! 7,
          ConnectedSinceTime = fst (parseNumeric n ''connectedSinceTime'' (flds ! 8)),
          Username = flds ! 9,
          ClientID = fst (parseNumeric n ''clientId'' (flds ! 10)),
          PeerID = fst (parseNumeric n ''peerId'' (flds ! 11)),
          DataCipher = (if length flds > 12 \<and> flds ! 12 \<noteq> [] then flds ! 12 else [])\<rparr>]\<rparr>,
      firstError (snd (parseNumeric n ''bytesReceived'' (flds ! 5))
                  @ snd (parseNumeric n ''bytesSent'' (flds ! 6))
                  @ snd (parseNumeric n ''connectedSinceTime'' (flds ! 8))
                  @ snd (parseNumeric n ''clientId'' (flds ! 10))
                  @ snd (parseNumeric n ''peerId'' (flds ! 11))))"
  using assms
  by (simp add: handleClientListV2V3_def Let_def split_beta del: One_nat_def)

lemma handleRoutingTable_long:
  assumes "6 \<le> length flds"
  shows "handleRoutingTable flds status n =
     (status\<lparr>RoutingTable := RoutingTable status @
        [\<lparr>RouteVirtualAddress = flds ! 1, RouteCommonName = flds ! 2,
          RouteRealAddress = Split (flds ! 3) (CHR '':'') ! 0, LastRef = flds ! 4,
          LastRefTime = fst (parseNumeric n ''lastRefTime'' (flds ! 5))\<rparr>]\<rparr>,
      firstError (snd (parseNumeric n ''lastRefTime'' (flds ! 5))))"
  using assms
  by (simp add: handleRoutingTable_def Let_def split_beta del: One_nat_def)

section \<open>Facts about the scanning loop\<close>

lemma scanLines_invariant:
  assumes step: "\<And>line st n. P st \<Longrightarrow> P (fst (parseLine line st n version d))"
      and "P st"
  shows "P (fst (scanLines version d n lines (st, errs)))"
  using assms(2)
proof (induction lines arbitrary: st errs n)
  case Nil
  then show ?case by simp
next
  case (Cons ln rest)
  show ?case
  proof (cases "TrimSpace ln = []")
    case True
    then show ?thesis using Cons by simp
  next
    case False
    obtain st' e where pl: "parseLine (TrimSpace ln) st (n + 1) version d = (st', e)"
      by (cases "parseLine (TrimSpace ln) st (n + 1) version d")
    have "P st'"
      using step [OF Cons.prems, of "TrimSpace ln" "n + 1"] pl by simp
    then show ?thesis
      using False pl Cons.IH by (cases e) (simp_all add: Let_def)
  qed
qed

lemma parseLine_Version1:
  "parseLine line st n Version1 d = handleClientListV1 (Split line d) st n"
  using Split_not_Nil [of line d] by (simp add: parseLine_def Let_def)

lemma handler_errors_independent:
  "snd (handleTitle flds st n) = snd (handleTitle flds st' n)"
  "snd (handleTime flds st n) = snd (handleTime flds st' n)"
  "snd (handleClientListV1 flds st n) = snd (handleClientListV1 flds st' n)"
  "snd (handleClientListV2V3 flds st n) = snd (handleClientListV2V3 flds st' n)"
  "snd (handleRoutingTable flds st n) = snd (handleRoutingTable flds st' n)"
  by (simp_all add: handleTitle_def handleTime_def handleClientListV1_def
        handleClientListV2V3_def handleRoutingTable_def Let_def split_beta)

lemma parseLine_error_independent:
  "snd (parseLine line st n version d) = snd (parseLine line st' n version d)"
  using handler_errors_independent [of "Split line d" st n st']
  by (simp add: parseLine_def Let_def)

lemma scanLines_step:
  "scanLines version d n (entry # rest) (st, errs) =
     (if TrimSpace entry = [] then scanLines version d (n + 1) rest (st, errs)
      else scanLines version d (n + 1) rest
             (fst (parseLine (TrimSpace entry) st (n + 1) version d),
              errs @ lineErrors version d (n + 1) entry))"
proof -
  obtain st' e where pl: "parseLine (TrimSpace entry) st (n + 1) version d = (st', e)"
    by (cases "parseLine (TrimSpace entry) st (n + 1) version d")
  have "snd (parseLine (TrimSpace entry) emptyStatus (n + 1) version d) = e"
    using parseLine_error_independent [of "TrimSpace entry" emptyStatus "n + 1" version d st] pl
    by simp
  then show ?thesis
    using pl by (cases e) (simp_all add: lineErrors_def Let_def)
qed

lemma scanLines_errors:
  "snd (scanLines version d (int k) entries (st, errs)) =
     errs @ concat (map (\<lambda>(i, entry). lineErrors version d (int i + 1) entry)
                        (enumerate k entries))"
proof (induction entries arbitrary: k st errs)
  case Nil
  then show ?case by simp
next
  case (Cons entry rest)
  let ?rest = "concat (map (\<lambda>(i, entry). lineErrors version d (int i + 1) entry)
                           (enumerate (Suc k) rest))"
  have unfold: "concat (map (\<lambda>(i, entry). lineErrors version d (int i + 1) entry)
                            (enumerate k (entry # rest)))
                  = lineErrors version d (int k + 1) entry @ ?rest"
    by simp
  have ih: "snd (scanLines version d (int k + 1) rest (st', errs')) = errs' @ ?rest"
    for st' errs'
    using Cons.IH [of "Suc k" st' errs'] by (simp add: add.commute)
  show ?case
  proof (cases "TrimSpace entry = []")
    case True
    have none: "lineErrors version d (int k + 1) entry = []"
      using True by (simp add: lineErrors_def)
    have "snd (scanLines version d (int k) (entry # rest) (st, errs))
            = snd (scanLines version d (int k + 1) rest (st, errs))"
      by (subst scanLines_step) (simp add: True)
    also have "\<dots> = errs @ ?rest" by (rule ih)
    finally show ?thesis by (simp only: unfold none append_Nil)
  next
    case False
    have "snd (scanLines version d (int k) (entry # rest) (st, errs))
            = snd (scanLines version d (int k + 1) rest
                (fst (parseLine (TrimSpace entry) st (int k + 1) version d),
                 errs @ lineErrors version d (int k + 1) entry))"
      by (subst scanLines_step) (simp add: False)
    also have "\<dots> = (errs @ lineErrors version d (int k + 1) entry) @ ?rest"
      by (rule ih)
    finally show ?thesis by (simp only: unfold append_assoc)
  qed
qed

lemma handlers_keep_title_time:
  "Title (fst (handleClientListV2V3 flds st n)) = Title st"
  "Time (fst (handleClientListV2V3 flds st n)) = Time st"
  "Title (fst (handleRoutingTable flds st n)) = Title st"
  "Time (fst (handleRoutingTable flds st n)) = Time st"
  "Time (fst (handleTitle flds st n)) = Time st"
  "Title (fst (handleTime flds st n)) = Title st"
  by (simp_all add: handleClientListV2V3_def handleRoutingTable_def handleTitle_def
        handleTime_def Let_def split_beta)

lemma parseLine_Title:
  assumes "version \<noteq> Version1"
  shows "Title (fst (parseLine line st n version d)) =
           (if Split line d ! 0 = ''TITLE'' \<and> 2 \<le> length (Split line d)
            then Split line d ! 1 else Title st)"
  using assms Split_not_Nil [of line d]
  by (simp add: parseLine_def Let_def handlers_keep_title_time)
     (simp add: handleTitle_def)

lemma parseLine_Time:
  assumes "version \<noteq> Version1"
  shows "Time (fst (parseLine line st n version d)) =
           (if Split line d ! 0 = ''TIME'' \<and> 2 \<le> length (Split line d)
            then drop 1 (Split line d) else Time st)"
  using assms Split_not_Nil [of line d]
  by (simp add: parseLine_def Let_def handlers_keep_title_time)
     (simp add: handleTime_def)

lemma scanLines_last_wins:
  assumes step: "\<And>line st n. get (fst (parseLine line st n version d)) =
                    (if valid (Split line d) then pick (Split line d) else get st)"
  shows "get (fst (scanLines version d n entries (st, errs))) =
           (let hits = filter valid (map (\<lambda>entry. Split (TrimSpace entry) d)
                                         (filter (\<lambda>entry. TrimSpace entry \<noteq> []) entries))
            in if hits = [] then get st else pick (last hits))"
proof (induction entries arbitrary: st errs n)
  case Nil
  then show ?case by simp
next
  case (Cons entry rest)
  show ?case
  proof (cases "TrimSpace entry = []")
    case True
    then show ?thesis
      using Cons.IH [of "n + 1" st errs] by (subst scanLines_step) simp
  next
    case False
    then show ?thesis
      using Cons.IH [of "n + 1" "fst (parseLine (TrimSpace entry) st (n + 1) version d)"
                        "errs @ lineErrors version d (n + 1) entry"]
      by (subst scanLines_step) (simp add: step Let_def)
  qed
qed

section \<open>Facts about trimming\<close>

lemma dropRunes_suffix: "suffix (dropRunes encs s) s"
proof (induction encs s rule: dropRunes.induct)
  case (1 encs)
  then show ?case by simp
next
  case (2 encs c cs)
  show ?case
  proof (cases "List.find (\<lambda>e. e \<noteq> [] \<and> prefix e (c # cs)) encs")
    case None
    then show ?thesis by simp
  next
    case (Some e)
    have "suffix (dropRunes encs (drop (length e - 1) cs)) (drop (length e - 1) cs)"
      using 2 Some by simp
    from suffix_order.trans [OF this suffix_drop]
    have "suffix (dropRunes encs (drop (length e - 1) cs)) cs" .
    then have "suffix (dropRunes encs (drop (length e - 1) cs)) (c # cs)"
      by (rule suffix_ConsI)
    then show ?thesis using Some by simp
  qed
qed

lemma set_dropRunes: "set (dropRunes encs s) \<subseteq> set s"
  using dropRunes_suffix [of encs s] by (rule set_mono_suffix)

lemma set_trimLeft: "set (trimLeft s) \<subseteq> set s"
  by (simp add: trimLeft_def set_dropRunes)

lemma set_trimRight: "set (trimRight s) \<subseteq> set s"
  using set_dropRunes [of "map rev spaceRunes" "rev s"] by (simp add: trimRight_def)

lemma set_TrimSpace: "set (TrimSpace s) \<subseteq> set s"
  using set_trimRight [of "trimLeft s"] set_trimLeft [of s] by (auto simp: TrimSpace_def)

lemma prefix_before_separator:
  assumes "length e = 1 \<or> d \<notin> set e" and "e \<noteq> []" and "f \<noteq> []"
  shows "prefix e (f @ d # r) \<longleftrightarrow> prefix e f"
proof
  assume "prefix e f"
  then show "prefix e (f @ d # r)" by (simp add: prefix_prefix)
next
  assume p: "prefix e (f @ d # r)"
  from assms(1) show "prefix e f"
  proof
    assume "length e = 1"
    then obtain x where e: "e = [x]" by (cases e) auto
    obtain y ys where f: "f = y # ys" using assms(3) by (cases f) auto
    show ?thesis using p by (simp add: e f)
  next
    assume nd: "d \<notin> set e"
    from p have "prefix e f \<or> (\<exists>us. e = f @ us \<and> prefix us (d # r))"
      by (simp add: prefix_append)
    then show ?thesis
    proof
      assume "prefix e f"
      then show ?thesis .
    next
      assume "\<exists>us. e = f @ us \<and> prefix us (d # r)"
      then obtain us where us: "e = f @ us" "prefix us (d # r)" by blast
      show ?thesis
      proof (cases us)
        case Nil
        then show ?thesis using us by simp
      next
        case (Cons u us')
        then have "u = d" using us(2) by simp
        then show ?thesis using nd us(1) Cons by simp
      qed
    qed
  qed
qed

lemma dropRunes_append:
  assumes "\<forall>e\<in>set encs. length e = 1 \<or> d \<notin> set e"
      and "dropRunes encs f \<noteq> []"
  shows "dropRunes encs (f @ d # r) = dropRunes encs f @ d # r"
  using assms
proof (induction encs f rule: dropRunes.induct)
  case (1 encs)
  then show ?case by simp
next
  case (2 encs c cs)
  let ?P = "\<lambda>e. e \<noteq> [] \<and> prefix e (c # cs)"
  let ?Q = "\<lambda>e. e \<noteq> [] \<and> prefix e (c # cs @ d # r)"
  have same: "?Q e = ?P e" if "e \<in> set encs" for e
    using prefix_before_separator [of e d "c # cs" r] "2.prems"(1) that by auto
  have find_same: "List.find ?Q encs = List.find ?P encs"
    using same by (intro find_cong) auto
  show ?case
  proof (cases "List.find ?P encs")
    case None
    then show ?thesis using find_same by simp
  next
    case (Some e)
    then have pe: "?P e" by (auto simp: find_Some_iff)
    then have len: "length e - 1 \<le> length cs"
      using prefix_length_le [of e "c # cs"] by simp
    have rest: "dropRunes encs (drop (length e - 1) cs) \<noteq> []"
      using "2.prems"(2) Some by simp
    have "dropRunes encs (drop (length e - 1) cs @ d # r)
            = dropRunes encs (drop (length e - 1) cs) @ d # r"
      using "2.IH" [OF Some "2.prems"(1) rest] .
    then show ?thesis
      using Some find_same len by simp
  qed
qed

lemma spaceRunes_separators:
  "\<forall>e\<in>set spaceRunes. length e = 1 \<or> CHR '','' \<notin> set e"
  "\<forall>e\<in>set spaceRunes. length e = 1 \<or> CHR 0x09 \<notin> set e"
  "\<forall>e\<in>set (map rev spaceRunes). length e = 1 \<or> CHR '','' \<notin> set e"
  "\<forall>e\<in>set (map rev spaceRunes). length e = 1 \<or> CHR 0x09 \<notin> set e"
  by (simp_all add: spaceRunes_def)

lemma trimLeft_append:
  assumes "d = CHR '','' \<or> d = CHR 0x09" and "trimLeft f \<noteq> []"
  shows "trimLeft (f @ d # r) = trimLeft f @ d # r"
  using assms dropRunes_append [of spaceRunes d f r] spaceRunes_separators(1,2)
  by (auto simp: trimLeft_def)

lemma trimRight_append:
  assumes "d = CHR '','' \<or> d = CHR 0x09" and "trimRight l \<noteq> []"
  shows "trimRight (x @ d # l) = x @ d # trimRight l"
proof -
  have ne: "dropRunes (map rev spaceRunes) (rev l) \<noteq> []"
    using assms(2) by (simp add: trimRight_def)
  have "dropRunes (map rev spaceRunes) (rev l @ d # rev x)
          = dropRunes (map rev spaceRunes) (rev l) @ d # rev x"
    using assms(1) dropRunes_append [of "map rev spaceRunes" d "rev l" "rev x"]
          spaceRunes_separators(3,4) ne
    by blast
  then show ?thesis by (simp add: trimRight_def)
qed

lemma TrimSpace_Join:
  assumes "d = CHR '','' \<or> d = CHR 0x09"
      and "trimLeft f1 \<noteq> []" and "trimRight fn \<noteq> []"
  shows "TrimSpace (Join (f1 # mid @ [fn]) [d]) = Join (trimLeft f1 # mid @ [trimRight fn]) [d]"
proof -
  have "Join (f1 # mid @ [fn]) [d] = f1 @ d # Join (mid @ [fn]) [d]"
    by (simp add: Join_Cons)
  then have "trimLeft (Join (f1 # mid @ [fn]) [d]) = trimLeft f1 @ d # Join (mid @ [fn]) [d]"
    using trimLeft_append [OF assms(1,2)] by simp
  also have "\<dots> = Join ((trimLeft f1 # mid) @ [fn]) [d]"
    by (simp add: Join_Cons)
  also have "\<dots> = Join (trimLeft f1 # mid) [d] @ d # fn"
    using Join_snoc [of "trimLeft f1 # mid" fn "[d]"] by simp
  finally have left: "trimLeft (Join (f1 # mid @ [fn]) [d])
                        = Join (trimLeft f1 # mid) [d] @ d # fn" .
  have "trimRight (Join (trimLeft f1 # mid) [d] @ d # fn)
          = Join (trimLeft f1 # mid) [d] @ d # trimRight fn"
    using trimRight_append [OF assms(1,3)] by simp
  also have "\<dots> = Join ((trimLeft f1 # mid) @ [trimRight fn]) [d]"
    using Join_snoc [of "trimLeft f1 # mid" "trimRight fn" "[d]"] by simp
  finally show ?thesis by (simp add: TrimSpace_def left)
qed

lemma Split_TrimSpace_Join:
  assumes d: "d = CHR '','' \<or> d = CHR 0x09"
      and nosep: "\<forall>f\<in>set flds. d \<notin> set f"
      and ends: "2 \<le> length flds \<longrightarrow> trimLeft (hd flds) \<noteq> [] \<and> trimRight (last flds) \<noteq> []"
  shows "TrimSpace (Join flds [d]) \<noteq> [] \<longrightarrow>
           Split (TrimSpace (Join flds [d])) d =
             (if 2 \<le> length flds
              then trimLeft (hd flds) # butlast (tl flds) @ [trimRight (last flds)]
              else [TrimSpace (concat flds)])"
    and "TrimSpace (Join flds [d]) = [] \<longleftrightarrow>
           length flds < 2 \<and> TrimSpace (concat flds) = []"
proof -
  consider (short) "flds = []" | (one) f where "flds = [f]"
    | (long) f1 mid fn where "flds = f1 # mid @ [fn]"
  proof (cases flds)
    case Nil
    then show ?thesis using short by simp
  next
    case (Cons f1 rest)
    show ?thesis
    proof (cases rest rule: rev_cases)
      case Nil
      then show ?thesis using one Cons by simp
    next
      case (snoc mid fn)
      then show ?thesis using long Cons by simp
    qed
  qed
  then have both: "(TrimSpace (Join flds [d]) \<noteq> [] \<longrightarrow>
           Split (TrimSpace (Join flds [d])) d =
             (if 2 \<le> length flds
              then trimLeft (hd flds) # butlast (tl flds) @ [trimRight (last flds)]
              else [TrimSpace (concat flds)]))
       \<and> (TrimSpace (Join flds [d]) = [] \<longleftrightarrow>
           length flds < 2 \<and> TrimSpace (concat flds) = [])"
  proof cases
    case short
    then show ?thesis by (simp add: TrimSpace_def trimLeft_def trimRight_def)
  next
    case one
    have "d \<notin> set (TrimSpace f)"
      using nosep one set_TrimSpace [of f] by auto
    then show ?thesis using one by (simp add: Split_no_sep)
  next
    case long
    have tl: "trimLeft f1 \<noteq> []" and tr: "trimRight fn \<noteq> []"
      using ends long by simp_all
    have ts: "TrimSpace (Join flds [d]) = Join (trimLeft f1 # mid @ [trimRight fn]) [d]"
      using TrimSpace_Join [OF d tl tr] long by simp
    have "\<forall>f\<in>set (trimLeft f1 # mid @ [trimRight fn]). d \<notin> set f"
      using nosep long set_trimLeft [of f1] set_trimRight [of fn] by auto
    then have split: "Split (TrimSpace (Join flds [d])) d = trimLeft f1 # mid @ [trimRight fn]"
      using Split_Join [of "trimLeft f1 # mid @ [trimRight fn]" d] ts by simp
    have "Join (trimLeft f1 # mid @ [trimRight fn]) [d] \<noteq> []"
      using tl by (simp add: Join_Cons)
    then show ?thesis using split ts long by simp
  qed
  show "TrimSpace (Join flds [d]) \<noteq> [] \<longrightarrow>
           Split (TrimSpace (Join flds [d])) d =
             (if 2 \<le> length flds
              then trimLeft (hd flds) # butlast (tl flds) @ [trimRight (last flds)]
              else [TrimSpace (concat flds)])"
    using both by blast
  show "TrimSpace (Join flds [d]) = [] \<longleftrightarrow>
           length flds < 2 \<and> TrimSpace (concat flds) = []"
    using both by blast
qed

section \<open>The real address\<close>

lemma real_address_is_first_piece:
  "5 \<le> length flds \<Longrightarrow>
     map RealAddress (ClientList (fst (handleClientListV1 flds status n)))
       = map RealAddress (ClientList status) @ [takeWhile (\<lambda>c. c \<noteq> CHR '':'') (flds ! 1)]"
  "12 \<le> length flds \<Longrightarrow>
     map RealAddress (ClientList (fst (handleClientListV2V3 flds status n)))
       = map RealAddress (ClientList status) @ [takeWhile (\<lambda>c. c \<noteq> CHR '':'') (flds ! 2)]"
  "6 \<le> length flds \<Longrightarrow>
     map RouteRealAddress (RoutingTable (fst (handleRoutingTable flds status n)))
       = map RouteRealAddress (RoutingTable status)
         @ [takeWhile (\<lambda>c. c \<noteq> CHR '':'') (flds ! 3)]"
  by (simp_all add: handleClientListV1_long handleClientListV2V3_long
        handleRoutingTable_long Split_first del: One_nat_def)

text \<open>
  C1. The claim is that the stored real address is the field cut at its last colon, so
  that an IPv6 address keeps its colons. The three decoders keep the piece before the
  first colon: the field \<open>[2001:db8::1]:5000\<close> is stored as \<open>[2001\<close>, not as
  \<open>[2001:db8::1]\<close>.
\<close>

theorem real_address_cut_at_first_colon:
  "map RealAddress (ClientList (fst (handleClientListV1
       [''user1'', ''[2001:db8::1]:5000'', ''100'', ''200'', ''T1''] emptyStatus 1)))
     = [''[2001'']
   \<and> map RealAddress (ClientList (fst (handleClientListV2V3
       [''CLIENT_LIST'', ''user1'', ''[2001:db8::1]:5000'', ''10.8.0.2'', '''', ''100'',
        ''200'', ''T1'', ''1732700645'', ''user1'', ''0'', ''0''] emptyStatus 1)))
     = [''[2001'']
   \<and> map RouteRealAddress (RoutingTable (fst (handleRoutingTable
       [''ROUTING_TABLE'', ''10.8.0.2'', ''user1'', ''[2001:db8::1]:5000'', ''T1'',
        ''1732704645''] emptyStatus 1)))
     = [''[2001'']"
  by (simp add: real_address_is_first_piece emptyStatus_def)

section \<open>Client lines with too few fields\<close>

text \<open>
  C2. A client line with fewer fields than its version asks for (5 under version 1, where
  every line is a client line; 12 under the other versions, where the tag CLIENT_LIST
  counts as a field) makes \<open>parseLine\<close> return one error and leave the status, and so the
  client list, as it was; the scanning loop appends exactly that one error for the line.
\<close>

theorem short_client_line_rejected:
  assumes "Split line delimiter = flds"
      and "(version = Version1 \<and> length flds < 5)
           \<or> (version \<noteq> Version1 \<and> flds ! 0 = ''CLIENT_LIST'' \<and> length flds < 12)"
      and "err = \<lparr>Line = lineNum,
                  FieldName = (if version = Version1 then ''CLIENT_LIST_V1''
                               else ''CLIENT_LIST''),
                  Value = Join flds '','',
                  Err = (if version = Version1 then Expected 5 (length flds)
                         else ExpectedAtLeast 12 (length flds))\<rparr>"
  shows "parseLine line status lineNum version delimiter = (status, Some err)
       \<and> (TrimSpace entry = line \<and> line \<noteq> [] \<longrightarrow>
            scanLines version delimiter (lineNum - 1) (entry # rest) (status, parseErrors)
              = scanLines version delimiter lineNum rest
                  (status, parseErrors @ [LineError err]))"
proof -
  have ne: "length flds \<noteq> 0"
    using assms(1) Split_not_Nil [of line delimiter] by auto
  from assms(2) have "parseLine line status lineNum version delimiter = (status, Some err)"
  proof
    assume "version = Version1 \<and> length flds < 5"
    then show ?thesis
      using ne by (simp add: parseLine_def assms(1) assms(3) handleClientListV1_def)
  next
    assume "version \<noteq> Version1 \<and> flds ! 0 = ''CLIENT_LIST'' \<and> length flds < 12"
    then show ?thesis
      using ne by (simp add: parseLine_def assms(1) assms(3) handleClientListV2V3_def)
  qed
  then show ?thesis by simp
qed

theorem short_client_line_rejected_witness:
  "parseLine ''user1,192.168.1.100:54321,1048576'' emptyStatus 1 Version1 (CHR '','')
     = (emptyStatus,
        Some \<lparr>Line = 1, FieldName = ''CLIENT_LIST_V1'',
              Value = ''user1,192.168.1.100:54321,1048576'', Err = Expected 5 3\<rparr>)
   \<and> scanLines Version1 (CHR '','') 0 [''user1,192.168.1.100:54321,1048576'']
         (emptyStatus, [])
     = (emptyStatus,
        [LineError \<lparr>Line = 1, FieldName = ''CLIENT_LIST_V1'',
                     Value = ''user1,192.168.1.100:54321,1048576'', Err = Expected 5 3\<rparr>])
   \<and> parseLine (''CLIENT_LIST'' @ [CHR 0x09] @ ''user1'') emptyStatus 4 Version3 (CHR 0x09)
     = (emptyStatus,
        Some \<lparr>Line = 4, FieldName = ''CLIENT_LIST'', Value = ''CLIENT_LIST,user1'',
              Err = ExpectedAtLeast 12 2\<rparr>)"
proof -
  have t: "TrimSpace ''user1,192.168.1.100:54321,1048576''
             = ''user1,192.168.1.100:54321,1048576''"
    by (simp add: TrimSpace_def trimLeft_def trimRight_def spaceRunes_def)
  show ?thesis
    using short_client_line_rejected [where line = "''user1,192.168.1.100:54321,1048576''"
            and delimiter = "CHR '',''"
            and flds = "[''user1'', ''192.168.1.100:54321'', ''1048576'']"
            and version = Version1 and lineNum = 1
            and entry = "''user1,192.168.1.100:54321,1048576''" and rest = "[]"
            and status = emptyStatus and parseErrors = "[]"]
          short_client_line_rejected [where line = "''CLIENT_LIST'' @ [CHR 0x09] @ ''user1''"
            and delimiter = "CHR 0x09" and flds = "[''CLIENT_LIST'', ''user1'']"
            and version = Version3 and lineNum = 4 and entry = "[]" and rest = "[]"
            and status = emptyStatus and parseErrors = "[]"]
    by (simp add: t Version1_def Version3_def)
qed

section \<open>Numeric fields\<close>

text \<open>
  C3. A line that has the number of fields its record type asks for is decoded into one
  record, which is appended whatever its numeric fields hold, and the numeric fields
  follow the policy: an empty text gives 0 and no error, a text that is not numeric gives
  0, and the error returned for the line is the one of the first numeric field that
  fails, citing its name, the line number and the raw text.
\<close>

theorem numeric_fields_follow_policy:
  "(5 \<le> length flds \<longrightarrow>
      (\<exists>client. fst (handleClientListV1 flds status lineNum)
                   = status\<lparr>ClientList := ClientList status @ [client]\<rparr>
         \<and> numericPolicy lineNum
              [(''bytesReceived'', flds ! 2, BytesReceived client),
               (''bytesSent'', flds ! 3, BytesSent client)]
              (snd (handleClientListV1 flds status lineNum))))
   \<and> (12 \<le> length flds \<longrightarrow>
      (\<exists>client. fst (handleClientListV2V3 flds status lineNum)
                   = status\<lparr>ClientList := ClientList status @ [client]\<rparr>
         \<and> numericPolicy lineNum
              [(''bytesReceived'', flds ! 5, BytesReceived client),
               (''bytesSent'', flds ! 6, BytesSent client),
               (''connectedSinceTime'', flds ! 8, ConnectedSinceTime client),
               (''clientId'', flds ! 10, ClientID client),
               (''peerId'', flds ! 11, PeerID client)]
              (snd (handleClientListV2V3 flds status lineNum))))
   \<and> (6 \<le> length flds \<longrightarrow>
      (\<exists>route. fst (handleRoutingTable flds status lineNum)
                   = status\<lparr>RoutingTable := RoutingTable status @ [route]\<rparr>
         \<and> numericPolicy lineNum
              [(''lastRefTime'', flds ! 5, LastRefTime route)]
              (snd (handleRoutingTable flds status lineNum))))"
proof (intro conjI impI)
  assume len: "5 \<le> length flds"
  let ?c = "\<lparr>CommonName = flds ! 0, RealAddress = Split (flds ! 1) (CHR '':'') ! 0,
          VirtualAddress = [], VirtualIPv6Address = [],
          BytesReceived = fst (parseNumeric lineNum ''bytesReceived'' (flds ! 2)),
          BytesSent = fst (parseNumeric lineNum ''bytesSent'' (flds ! 3)),
          ConnectedSince = flds ! 4, ConnectedSinceTime = 0,
          Username = [], ClientID = 0, PeerID = 0, DataCipher = []\<rparr>"
  have "numericPolicy lineNum
          [(''bytesReceived'', flds ! 2, BytesReceived ?c),
           (''bytesSent'', flds ! 3, BytesSent ?c)]
          (snd (handleClientListV1 flds status lineNum))"
    using numericPolicy_parseNumeric [of
        "[(''bytesReceived'', flds ! 2, BytesReceived ?c),
          (''bytesSent'', flds ! 3, BytesSent ?c)]" lineNum]
    by (simp add: handleClientListV1_long [OF len])
  then show "\<exists>client. fst (handleClientListV1 flds status lineNum)
                   = status\<lparr>ClientList := ClientList status @ [client]\<rparr>
         \<and> numericPolicy lineNum
              [(''bytesReceived'', flds ! 2, BytesReceived client),
               (''bytesSent'', flds ! 3, BytesSent client)]
              (snd (handleClientListV1 flds status lineNum))"
    by (intro exI [of _ ?c]) (simp add: handleClientListV1_long [OF len])
next
  assume len: "12 \<le> length flds"
  let ?c = "\<lparr>CommonName = flds ! 1, RealAddress = Split (flds ! 2) (CHR '':'') ! 0,
          VirtualAddress = flds ! 3, VirtualIPv6Address = flds ! 4,
          BytesReceived = fst (parseNumeric lineNum ''bytesReceived'' (flds ! 5)),
          BytesSent = fst (parseNumeric lineNum ''bytesSent'' (flds ! 6)),
          ConnectedSince = flds ! 7,
          ConnectedSinceTime = fst (parseNumeric lineNum ''connectedSinceTime'' (flds ! 8)),
          Username = flds ! 9,
          ClientID = fst (parseNumeric lineNum ''clientId'' (flds ! 10)),
          PeerID = fst (parseNumeric lineNum ''peerId'' (flds ! 11)),
          DataCipher = (if length flds > 12 \<and> flds ! 12 \<noteq> [] then flds ! 12 else [])\<rparr>"
  have "numericPolicy lineNum
          [(''bytesReceived'', flds ! 5, BytesReceived ?c),
           (''bytesSent'', flds ! 6, BytesSent ?c),
           (''connectedSinceTime'', flds ! 8, ConnectedSinceTime ?c),
           (''clientId'', flds ! 10, ClientID ?c),
           (''peerId'', flds ! 11, PeerID ?c)]
          (snd (handleClientListV2V3 flds status lineNum))"
    using numericPolicy_parseNumeric [of
        "[(''bytesReceived'', flds ! 5, BytesReceived ?c),
          (''bytesSent'', flds ! 6, BytesSent ?c),
          (''connectedSinceTime'', flds ! 8, ConnectedSinceTime ?c),
          (''clientId'', flds ! 10, ClientID ?c),
          (''peerId'', flds ! 11, PeerID ?c)]" lineNum]
    by (simp add: handleClientListV2V3_long [OF len])
  then show "\<exists>client. fst (handleClientListV2V3 flds status lineNum)
                   = status\<lparr>ClientList := ClientList status @ [client]\<rparr>
         \<and> numericPolicy lineNum
              [(''bytesReceived'', flds ! 5, BytesReceived client),
               (''bytesSent'', flds ! 6, BytesSent client),
               (''connectedSinceTime'', flds ! 8, ConnectedSinceTime client),
               (''clientId'', flds ! 10, ClientID client),
               (''peerId'', flds ! 11, PeerID client)]
              (snd (handleClientListV2V3 flds status lineNum))"
    by (intro exI [of _ ?c]) (simp add: handleClientListV2V3_long [OF len])
next
  assume len: "6 \<le> length flds"
  let ?r = "\<lparr>RouteVirtualAddress = flds ! 1, RouteCommonName = flds ! 2,
          RouteRealAddress = Split (flds ! 3) (CHR '':'') ! 0, LastRef = flds ! 4,
          LastRefTime = fst (parseNumeric lineNum ''lastRefTime'' (flds ! 5))\<rparr>"
  have "numericPolicy lineNum [(''lastRefTime'', flds ! 5, LastRefTime ?r)]
          (snd (handleRoutingTable flds status lineNum))"
    using numericPolicy_parseNumeric [of "[(''lastRefTime'', flds ! 5, LastRefTime ?r)]" lineNum]
    by (simp add: handleRoutingTable_long [OF len])
  then show "\<exists>route. fst (handleRoutingTable flds status lineNum)
                   = status\<lparr>RoutingTable := RoutingTable status @ [route]\<rparr>
         \<and> numericPolicy lineNum
              [(''lastRefTime'', flds ! 5, LastRefTime route)]
              (snd (handleRoutingTable flds status lineNum))"
    by (intro exI [of _ ?r]) (simp add: handleRoutingTable_long [OF len])
qed

theorem numeric_fields_follow_policy_witness:
  "\<exists>client.
      fst (handleClientListV2V3
             [''CLIENT_LIST'', ''user1'', ''192.168.1.100:54321'', ''10.8.0.2'', '''',
              ''invalid_number'', ''2x'', ''Thu Nov 27 09:30:45 2025'', ''1732700645'',
              ''user1'', '''', ''7''] emptyStatus 2)
        = emptyStatus\<lparr>ClientList := ClientList emptyStatus @ [client]\<rparr>
      \<and> BytesReceived client = 0 \<and> BytesSent client = 0
      \<and> ConnectedSinceTime client = 1732700645
      \<and> ClientID client = 0 \<and> PeerID client = 7
      \<and> snd (handleClientListV2V3
             [''CLIENT_LIST'', ''user1'', ''192.168.1.100:54321'', ''10.8.0.2'', '''',
              ''invalid_number'', ''2x'', ''Thu Nov 27 09:30:45 2025'', ''1732700645'',
              ''user1'', '''', ''7''] emptyStatus 2)
        = Some \<lparr>Line = 2, FieldName = ''bytesReceived'', Value = ''invalid_number'',
                 Err = NumError ''invalid_number'' ErrSyntax\<rparr>"
proof -
  have p: "ParseInt ''invalid_number'' = Inl ErrSyntax" "ParseInt ''2x'' = Inl ErrSyntax"
    "ParseInt ''1732700645'' = Inr 1732700645" "ParseInt ''7'' = Inr 7"
    "ParseInt [] = Inl ErrSyntax"
    by (simp_all add: ParseInt_def ParseUint_def isDigit_def cutoff10_def)
  show ?thesis
    using numeric_fields_follow_policy [of
        "[''CLIENT_LIST'', ''user1'', ''192.168.1.100:54321'', ''10.8.0.2'', '''',
          ''invalid_number'', ''2x'', ''Thu Nov 27 09:30:45 2025'', ''1732700645'',
          ''user1'', '''', ''7'']" emptyStatus 2]
    by (auto simp: numericPolicy_def p)
qed

section \<open>The driver\<close>

text \<open>
  C4. \<open>ParseFile\<close> returns no status exactly when the file cannot be opened, and the error
  list is then the one open error. Otherwise it returns a status, and the error list
  holds, line after line and in order, the error of every line that failed to decode (the
  scan goes on after each), followed by the read error if the scanner reports one. A line
  that is blank once trimmed changes neither the status nor the error list. When the
  error list is empty, \<open>parseLine\<close> returned no error on any line.
\<close>

theorem ParseFile_status_and_errors:
  assumes "delimiter = (if version = Version3 then CHR 0x09 else CHR '','')"
  shows "(fst (ParseFile fs filepath version) = None \<longleftrightarrow> isl (fs filepath))
     \<and> (\<forall>oserr. fs filepath = Inl oserr \<longrightarrow>
           ParseFile fs filepath version = (None, [OpenFailed oserr]))
     \<and> (\<forall>entries readErr. fs filepath = Inr (File entries readErr) \<longrightarrow>
           (\<exists>status. fst (ParseFile fs filepath version) = Some status)
           \<and> snd (ParseFile fs filepath version)
               = concat (map (\<lambda>(i, entry). lineErrors version delimiter (int i + 1) entry)
                             (enumerate 0 entries))
                 @ (case readErr of None \<Rightarrow> [] | Some e \<Rightarrow> [ReadFailed e])
           \<and> (snd (ParseFile fs filepath version) = [] \<longrightarrow>
                (\<forall>i < length entries. \<forall>st. TrimSpace (entries ! i) \<noteq> [] \<longrightarrow>
                   snd (parseLine (TrimSpace (entries ! i)) st (int i + 1) version delimiter)
                     = None)))
     \<and> (\<forall>entry rest n acc. TrimSpace entry = [] \<longrightarrow>
           scanLines version delimiter n (entry # rest) acc
             = scanLines version delimiter (n + 1) rest acc)"
proof -
  have absent: "fst (ParseFile fs filepath version) = None \<longleftrightarrow> isl (fs filepath)"
    by (cases "fs filepath")
       (auto simp: ParseFile_def Let_def split: prod.splits option.splits)
  have failed: "ParseFile fs filepath version = (None, [OpenFailed oserr])"
    if "fs filepath = Inl oserr" for oserr
    using that by (simp add: ParseFile_def)
  have blank: "scanLines version delimiter n (entry # rest) acc
                 = scanLines version delimiter (n + 1) rest acc"
    if "TrimSpace entry = []" for entry rest n acc
    using that by (cases acc) simp
  have opened: "(\<exists>status. fst (ParseFile fs filepath version) = Some status)
           \<and> snd (ParseFile fs filepath version)
               = concat (map (\<lambda>(i, entry). lineErrors version delimiter (int i + 1) entry)
                             (enumerate 0 entries))
                 @ (case readErr of None \<Rightarrow> [] | Some e \<Rightarrow> [ReadFailed e])
           \<and> (snd (ParseFile fs filepath version) = [] \<longrightarrow>
                (\<forall>i < length entries. \<forall>st. TrimSpace (entries ! i) \<noteq> [] \<longrightarrow>
                   snd (parseLine (TrimSpace (entries ! i)) st (int i + 1) version delimiter)
                     = None))"
    if op: "fs filepath = Inr (File entries readErr)" for entries readErr
  proof -
    let ?scan = "scanLines version delimiter 0 entries (emptyStatus, [])"
    let ?errs = "concat (map (\<lambda>(i, entry). lineErrors version delimiter (int i + 1) entry)
                             (enumerate 0 entries))"
    have pf: "ParseFile fs filepath version
                = (Some (fst ?scan),
                   snd ?scan @ (case readErr of None \<Rightarrow> [] | Some e \<Rightarrow> [ReadFailed e]))"
      using op assms
      by (simp add: ParseFile_def Let_def split: prod.splits option.splits)
    have errs: "snd ?scan = ?errs"
      using scanLines_errors [of version delimiter 0 entries emptyStatus "[]"] by simp
    have clean: "snd (parseLine (TrimSpace (entries ! i)) st (int i + 1) version delimiter)
                   = None"
      if empty: "?errs = []" and i: "i < length entries"
        and nonblank: "TrimSpace (entries ! i) \<noteq> []" for i st
    proof -
      have "(i, entries ! i) \<in> set (enumerate 0 entries)"
        using i by (simp add: in_set_enumerate_eq)
      then have "lineErrors version delimiter (int i + 1) (entries ! i) = []"
        using empty by (auto simp: concat_eq_Nil_conv)
      then have "snd (parseLine (TrimSpace (entries ! i)) emptyStatus (int i + 1)
                       version delimiter) = None"
        using nonblank by (simp add: lineErrors_def Let_def split: option.splits)
      then show ?thesis
        using parseLine_error_independent
                [of "TrimSpace (entries ! i)" st "int i + 1" version delimiter emptyStatus]
        by simp
    qed
    show ?thesis
      using clean by (simp add: pf errs)
  qed
  show ?thesis
    using absent failed blank opened by blast
qed

theorem ParseFile_status_and_errors_witness:
  "ParseFile (\<lambda>p. if p = ''status.log''
                    then Inr (File [''user1,10.0.0.1:5,100,200,T1'', '' '', ''x,y''] None)
                    else Inl ''no such file or directory'') ''missing.log'' Version1
     = (None, [OpenFailed ''no such file or directory''])
   \<and> snd (ParseFile (\<lambda>p. if p = ''status.log''
                    then Inr (File [''user1,10.0.0.1:5,100,200,T1'', '' '', ''x,y''] None)
                    else Inl ''no such file or directory'') ''status.log'' Version1)
     = [LineError \<lparr>Line = 3, FieldName = ''CLIENT_LIST_V1'', Value = ''x,y'',
                    Err = Expected 5 2\<rparr>]
   \<and> snd (ParseFile (\<lambda>p. Inr (File [''user1,10.0.0.1:5,100,200,T1'', '' ''] None))
            ''status.log'' Version1) = []
   \<and> snd (parseLine (TrimSpace ''user1,10.0.0.1:5,100,200,T1'') emptyStatus 1 Version1
            (CHR '','')) = None
   \<and> scanLines Version1 (CHR '','') 1 ['' ''] (emptyStatus, []) = (emptyStatus, [])"
proof -
  have d: "CHR '','' = (if Version1 = Version3 then CHR 0x09 else CHR '','')"
    by (simp add: Version1_def Version3_def)
  have t: "TrimSpace ''user1,10.0.0.1:5,100,200,T1'' = ''user1,10.0.0.1:5,100,200,T1''"
    "TrimSpace '' '' = []" "TrimSpace ''x,y'' = ''x,y''"
    by (simp_all add: TrimSpace_def trimLeft_def trimRight_def spaceRunes_def)
  have p: "ParseInt ''100'' = Inr 100" "ParseInt ''200'' = Inr 200"
    by (simp_all add: ParseInt_def ParseUint_def isDigit_def cutoff10_def)
  have e: "lineErrors Version1 (CHR '','') 1 ''user1,10.0.0.1:5,100,200,T1'' = []"
    "lineErrors Version1 (CHR '','') 2 '' '' = []"
    "lineErrors Version1 (CHR '','') 3 ''x,y''
       = [LineError \<lparr>Line = 3, FieldName = ''CLIENT_LIST_V1'', Value = ''x,y'',
                      Err = Expected 5 2\<rparr>]"
    by (simp_all add: lineErrors_def t parseLine_Version1 handleClientListV1_def
          parseNumeric_def firstError_def p)
  have missing: "ParseFile (\<lambda>p. if p = ''status.log''
                    then Inr (File [''user1,10.0.0.1:5,100,200,T1'', '' '', ''x,y''] None)
                    else Inl ''no such file or directory'') ''missing.log'' Version1
     = (None, [OpenFailed ''no such file or directory''])"
    using ParseFile_status_and_errors [OF d,
            where fs = "\<lambda>p. if p = ''status.log''
                    then Inr (File [''user1,10.0.0.1:5,100,200,T1'', '' '', ''x,y''] None)
                    else Inl ''no such file or directory''"
            and filepath = "''missing.log''"]
    by simp
  have bad: "snd (ParseFile (\<lambda>p. if p = ''status.log''
                    then Inr (File [''user1,10.0.0.1:5,100,200,T1'', '' '', ''x,y''] None)
                    else Inl ''no such file or directory'') ''status.log'' Version1)
     = [LineError \<lparr>Line = 3, FieldName = ''CLIENT_LIST_V1'', Value = ''x,y'',
                    Err = Expected 5 2\<rparr>]"
    using ParseFile_status_and_errors [OF d,
            where fs = "\<lambda>p. if p = ''status.log''
                    then Inr (File [''user1,10.0.0.1:5,100,200,T1'', '' '', ''x,y''] None)
                    else Inl ''no such file or directory''"
            and filepath = "''status.log''"]
    by (simp add: e enumerate_eq_zip)
  have clean: "snd (ParseFile (\<lambda>p. Inr (File [''user1,10.0.0.1:5,100,200,T1'', '' ''] None))
            ''status.log'' Version1) = []
     \<and> (\<forall>i < length [''user1,10.0.0.1:5,100,200,T1'', '' '']. \<forall>st.
           TrimSpace ([''user1,10.0.0.1:5,100,200,T1'', '' ''] ! i) \<noteq> [] \<longrightarrow>
           snd (parseLine (TrimSpace ([''user1,10.0.0.1:5,100,200,T1'', '' ''] ! i)) st
                  (int i + 1) Version1 (CHR '','')) = None)"
    using ParseFile_status_and_errors [OF d,
            where fs = "\<lambda>p. Inr (File [''user1,10.0.0.1:5,100,200,T1'', '' ''] None)"
            and filepath = "''status.log''"]
    by (simp add: e enumerate_eq_zip)
  then have first: "snd (parseLine (TrimSpace ''user1,10.0.0.1:5,100,200,T1'') emptyStatus 1
            Version1 (CHR '','')) = None"
    using t(1) by (auto dest!: spec [of _ 0])
  have skip: "scanLines Version1 (CHR '','') 1 ['' ''] (emptyStatus, []) = (emptyStatus, [])"
    using ParseFile_status_and_errors [OF d, where fs = "\<lambda>p. Inl []" and filepath = "[]"]
          t(2)
    by simp
  show ?thesis
    using missing bad clean first skip by simp
qed

section \<open>The duration gauge\<close>

lemma duration_sample_for_every_client:
  assumes "client \<in> set (ClientList status)"
  shows "''openvpn_client_connected_duration_seconds'' @ buildClientLabels q client server
           @ '' '' @ fmtD (wrap64 (now - ConnectedSinceTime client)) @ [CHR 0x0A]
         \<in> set (formatWrites q now server status)"
  using assms by (auto simp: formatWrites_def Let_def)

text \<open>
  C5. The claim is that a client whose connect epoch is zero gets no sample of the gauge
  \<open>openvpn_client_connected_duration_seconds\<close>. The formatter writes one for every client:
  for the status of the repository's test \<open>TestOpenMetricsFormatterV1NoTimestamp\<close>, whose
  one client has connect epoch 0, the output holds the sample, with the value \<open>now\<close>.
\<close>

theorem duration_gauge_written_for_zero_epoch:
  "Format q now
     \<lparr>Server = Some \<lparr>ID = ''test'', Local = [], Port = [], Proto = [], Dev = []\<rparr>,
      Title = [], Time = [],
      ClientList =
        [\<lparr>CommonName = ''user1'', RealAddress = ''192.168.1.100:54321'',
          VirtualAddress = [], VirtualIPv6Address = [], BytesReceived = 1000,
          BytesSent = 2000, ConnectedSince = [], ConnectedSinceTime = 0, Username = [],
          ClientID = 0, PeerID = 0, DataCipher = []\<rparr>],
      RoutingTable = []\<rparr>
   = Some (concat
       (formatWrites q now \<lparr>ID = ''test'', Local = [], Port = [], Proto = [], Dev = []\<rparr>
          \<lparr>Server = Some \<lparr>ID = ''test'', Local = [], Port = [], Proto = [], Dev = []\<rparr>,
           Title = [], Time = [],
           ClientList =
             [\<lparr>CommonName = ''user1'', RealAddress = ''192.168.1.100:54321'',
               VirtualAddress = [], VirtualIPv6Address = [], BytesReceived = 1000,
               BytesSent = 2000, ConnectedSince = [], ConnectedSinceTime = 0,
               Username = [], ClientID = 0, PeerID = 0, DataCipher = []\<rparr>],
           RoutingTable = []\<rparr>))
   \<and> ''openvpn_client_connected_duration_seconds{common_name='' @ q ''user1''
        @ '',real_address='' @ q ''192.168.1.100:54321'' @ '',server_id='' @ q ''test''
        @ '',virtual_address='' @ q [] @ ''} '' @ fmtD (wrap64 now) @ [CHR 0x0A]
     \<in> set (formatWrites q now \<lparr>ID = ''test'', Local = [], Port = [], Proto = [], Dev = []\<rparr>
          \<lparr>Server = Some \<lparr>ID = ''test'', Local = [], Port = [], Proto = [], Dev = []\<rparr>,
           Title = [], Time = [],
           ClientList =
             [\<lparr>CommonName = ''user1'', RealAddress = ''192.168.1.100:54321'',
               VirtualAddress = [], VirtualIPv6Address = [], BytesReceived = 1000,
               BytesSent = 2000, ConnectedSince = [], ConnectedSinceTime = 0,
               Username = [], ClientID = 0, PeerID = 0, DataCipher = []\<rparr>],
           RoutingTable = []\<rparr>)"
  by (simp add: Format_def formatWrites_def Let_def buildClientLabels_def
        sanitizeLabelValue_def ReplaceAll_def)

section \<open>Version 1\<close>

text \<open>
  C6. A version-1 line with its five fields is decoded into a client whose virtual
  address, virtual IPv6 address, username and cipher are empty and whose client id, peer
  id and connect epoch are zero. A whole parse under version 1 returns a status whose
  title, time fields and routes are empty, and whose clients all have those fields empty
  or zero.
\<close>

theorem version1_has_no_newer_fields:
  "(5 \<le> length flds \<longrightarrow>
      (\<exists>client. fst (handleClientListV1 flds status lineNum)
                   = status\<lparr>ClientList := ClientList status @ [client]\<rparr>
         \<and> VirtualAddress client = [] \<and> VirtualIPv6Address client = []
         \<and> Username client = [] \<and> DataCipher client = []
         \<and> ClientID client = 0 \<and> PeerID client = 0 \<and> ConnectedSinceTime client = 0))
   \<and> (ParseFile fs filepath Version1 = (Some status', errs) \<longrightarrow>
        Title status' = [] \<and> Time status' = [] \<and> RoutingTable status' = []
        \<and> (\<forall>client \<in> set (ClientList status').
              VirtualAddress client = [] \<and> VirtualIPv6Address client = []
              \<and> Username client = [] \<and> DataCipher client = []
              \<and> ClientID client = 0 \<and> PeerID client = 0
              \<and> ConnectedSinceTime client = 0))"
proof -
  have decoded: "\<exists>client. fst (handleClientListV1 flds status lineNum)
                   = status\<lparr>ClientList := ClientList status @ [client]\<rparr>
         \<and> VirtualAddress client = [] \<and> VirtualIPv6Address client = []
         \<and> Username client = [] \<and> DataCipher client = []
         \<and> ClientID client = 0 \<and> PeerID client = 0 \<and> ConnectedSinceTime client = 0"
    if len: "5 \<le> length flds"
  proof -
    let ?c = "\<lparr>CommonName = flds ! 0, RealAddress = Split (flds ! 1) (CHR '':'') ! 0,
          VirtualAddress = [], VirtualIPv6Address = [],
          BytesReceived = fst (parseNumeric lineNum ''bytesReceived'' (flds ! 2)),
          BytesSent = fst (parseNumeric lineNum ''bytesSent'' (flds ! 3)),
          ConnectedSince = flds ! 4, ConnectedSinceTime = 0,
          Username = [], ClientID = 0, PeerID = 0, DataCipher = []\<rparr>"
    show ?thesis
      by (intro exI [of _ ?c]) (simp add: handleClientListV1_long [OF len])
  qed
  let ?P = "\<lambda>st. Title st = [] \<and> Time st = [] \<and> RoutingTable st = []
        \<and> (\<forall>client \<in> set (ClientList st).
              VirtualAddress client = [] \<and> VirtualIPv6Address client = []
              \<and> Username client = [] \<and> DataCipher client = []
              \<and> ClientID client = 0 \<and> PeerID client = 0
              \<and> ConnectedSinceTime client = 0)"
  have step: "?P (fst (parseLine line st n Version1 d))" if "?P st" for line st n d
  proof (cases "5 \<le> length (Split line d)")
    case True
    then show ?thesis
      using that by (simp add: parseLine_Version1 handleClientListV1_long)
  next
    case False
    then show ?thesis
      using that by (simp add: parseLine_Version1 handleClientListV1_def)
  qed
  have init: "?P emptyStatus" by (simp add: emptyStatus_def)
  have whole: "?P status'" if pf: "ParseFile fs filepath Version1 = (Some status', errs)"
  proof -
    obtain fl where opened: "fs filepath = Inr fl"
      using pf by (cases "fs filepath") (simp_all add: ParseFile_def)
    have "?P (fst (scanLines Version1 (CHR '','') 0 (scanned fl) (emptyStatus, [])))"
      by (rule scanLines_invariant [where P = ?P, OF step init])
    moreover have "status' = fst (scanLines Version1 (CHR '','') 0 (scanned fl) (emptyStatus, []))"
      using pf opened
      by (auto simp: ParseFile_def Let_def Version1_def Version3_def
               split: prod.splits option.splits)
    ultimately show ?thesis by simp
  qed
  show ?thesis using decoded whole by blast
qed

theorem version1_has_no_newer_fields_witness:
  "ParseFile (\<lambda>p. Inr (File [''user1,10.0.0.1:5,100,200,T1''] None)) ''status.log'' Version1
     = (Some \<lparr>Server = None, Title = [], Time = [],
              ClientList =
                [\<lparr>CommonName = ''user1'', RealAddress = ''10.0.0.1'',
                  VirtualAddress = [], VirtualIPv6Address = [],
                  BytesReceived = 100, BytesSent = 200, ConnectedSince = ''T1'',
                  ConnectedSinceTime = 0, Username = [], ClientID = 0, PeerID = 0,
                  DataCipher = []\<rparr>],
              RoutingTable = []\<rparr>, [])
   \<and> (\<exists>client. fst (handleClientListV1 [''user1'', ''10.0.0.1:5'', ''100'', ''200'', ''T1'']
                        emptyStatus 1)
                 = emptyStatus\<lparr>ClientList := ClientList emptyStatus @ [client]\<rparr>
         \<and> VirtualAddress client = [] \<and> VirtualIPv6Address client = []
         \<and> Username client = [] \<and> DataCipher client = []
         \<and> ClientID client = 0 \<and> PeerID client = 0 \<and> ConnectedSinceTime client = 0)"
proof -
  have run: "ParseFile (\<lambda>p. Inr (File [''user1,10.0.0.1:5,100,200,T1''] None))
               ''status.log'' Version1
     = (Some \<lparr>Server = None, Title = [], Time = [],
              ClientList =
                [\<lparr>CommonName = ''user1'', RealAddress = ''10.0.0.1'',
                  VirtualAddress = [], VirtualIPv6Address = [],
                  BytesReceived = 100, BytesSent = 200, ConnectedSince = ''T1'',
                  ConnectedSinceTime = 0, Username = [], ClientID = 0, PeerID = 0,
                  DataCipher = []\<rparr>],
              RoutingTable = []\<rparr>, [])"
    by (simp add: ParseFile_def parseLine_def handleClientListV1_def parseNumeric_def
          firstError_def TrimSpace_def trimLeft_def trimRight_def spaceRunes_def
          ParseInt_def ParseUint_def isDigit_def cutoff10_def Version1_def Version3_def
          emptyStatus_def)
  show ?thesis
    using version1_has_no_newer_fields [where
            flds = "[''user1'', ''10.0.0.1:5'', ''100'', ''200'', ''T1'']"
            and status = emptyStatus and lineNum = 1
            and fs = "\<lambda>p. Inr (File [''user1,10.0.0.1:5,100,200,T1''] None)"
            and filepath = "''status.log''" and errs = "[]"] run
    by simp
qed

section \<open>Title and time lines\<close>

text \<open>
  C7. Under versions 2 and 3 (any version but 1), a line whose tag is TITLE and that has
  at least two fields sets the title to field 1 as it stands; a line whose tag is TIME and
  that has at least two fields stores all the fields after the tag, in order; with fewer
  than two fields either line returns one error and leaves the status as it was.
\<close>

theorem title_time_lines:
  assumes "version \<noteq> Version1" and "Split line delimiter = flds"
  shows "(flds ! 0 = ''TITLE'' \<and> 2 \<le> length flds \<longrightarrow>
            parseLine line status lineNum version delimiter
              = (status\<lparr>Title := flds ! 1\<rparr>, None))
       \<and> (flds ! 0 = ''TIME'' \<and> 2 \<le> length flds \<longrightarrow>
            parseLine line status lineNum version delimiter
              = (status\<lparr>Time := drop 1 flds\<rparr>, None))
       \<and> (flds ! 0 = ''TITLE'' \<and> length flds < 2 \<longrightarrow>
            parseLine line status lineNum version delimiter
              = (status, Some \<lparr>Line = lineNum, FieldName = ''TITLE'',
                                Value = Join flds '','',
                                Err = ExpectedAtLeast 2 (length flds)\<rparr>))
       \<and> (flds ! 0 = ''TIME'' \<and> length flds < 2 \<longrightarrow>
            parseLine line status lineNum version delimiter
              = (status, Some \<lparr>Line = lineNum, FieldName = ''TIME'',
                                Value = Join flds '','',
                                Err = ExpectedAtLeast 2 (length flds)\<rparr>))"
proof -
  have ne: "length flds \<noteq> 0"
    using assms(2) Split_not_Nil [of line delimiter] by auto
  show ?thesis
    using assms(1) ne
    by (simp add: parseLine_def assms(2) handleTitle_def handleTime_def)
qed

theorem title_time_lines_witness:
  "parseLine ''TITLE,My VPN'' emptyStatus 1 Version2 (CHR '','')
      = (emptyStatus\<lparr>Title := ''My VPN''\<rparr>, None)
   \<and> parseLine ''TIME,Thu Nov 27,1732704645'' emptyStatus 2 Version2 (CHR '','')
      = (emptyStatus\<lparr>Time := [''Thu Nov 27'', ''1732704645'']\<rparr>, None)
   \<and> parseLine ''TITLE'' emptyStatus 3 Version2 (CHR '','')
      = (emptyStatus, Some \<lparr>Line = 3, FieldName = ''TITLE'', Value = ''TITLE'',
                             Err = ExpectedAtLeast 2 1\<rparr>)
   \<and> parseLine ''TIME'' emptyStatus 4 Version2 (CHR '','')
      = (emptyStatus, Some \<lparr>Line = 4, FieldName = ''TIME'', Value = ''TIME'',
                             Err = ExpectedAtLeast 2 1\<rparr>)"
  using title_time_lines [of Version2 "''TITLE,My VPN''" "CHR '',''"
                            "[''TITLE'', ''My VPN'']" emptyStatus 1]
        title_time_lines [of Version2 "''TIME,Thu Nov 27,1732704645''" "CHR '',''"
                            "[''TIME'', ''Thu Nov 27'', ''1732704645'']" emptyStatus 2]
        title_time_lines [of Version2 "''TITLE''" "CHR '',''" "[''TITLE'']" emptyStatus 3]
        title_time_lines [of Version2 "''TIME''" "CHR '',''" "[''TIME'']" emptyStatus 4]
  by (simp add: Version1_def Version2_def)

section \<open>The configured version\<close>

text \<open>
  C8. A configured status-version outside 1, 2, 3 (9, for example) gives the effective
  version 3; the values 1, 2 and 3 give themselves.
\<close>

theorem getStatusVersion_falls_back:
  "(ver \<notin> {1, 2, 3} \<longrightarrow> getStatusVersion ver = Version3)
   \<and> getStatusVersion 1 = Version1 \<and> getStatusVersion 2 = Version2
   \<and> getStatusVersion 3 = Version3
   \<and> Version1 = 1 \<and> Version2 = 2 \<and> Version3 = 3"
  by (simp add: getStatusVersion_def Version1_def Version2_def Version3_def)

theorem getStatusVersion_falls_back_witness:
  "getStatusVersion 9 = Version3 \<and> getStatusVersion 9 = 3"
  using getStatusVersion_falls_back [of 9] by simp

section \<open>Versions 2 and 3\<close>

lemma parseLine_depends_on_fields:
  assumes "version \<noteq> Version1" and "version' \<noteq> Version1"
      and "Split line d = Split line' d'"
  shows "parseLine line st n version d = parseLine line' st n version' d'"
  using assms by (simp add: parseLine_def Let_def)

lemma scanLines_comma_tab:
  assumes "\<forall>flds \<in> set fieldLists.
             (\<forall>f \<in> set flds. CHR '','' \<notin> set f \<and> CHR 0x09 \<notin> set f)
             \<and> (2 \<le> length flds \<longrightarrow>
                  trimLeft (hd flds) \<noteq> [] \<and> trimRight (last flds) \<noteq> [])"
  shows "scanLines Version2 (CHR '','') n (map (\<lambda>flds. Join flds '','') fieldLists) acc
       = scanLines Version3 (CHR 0x09) n (map (\<lambda>flds. Join flds [CHR 0x09]) fieldLists) acc"
  using assms
proof (induction fieldLists arbitrary: n acc)
  case Nil
  then show ?case by simp
next
  case (Cons flds rest)
  obtain st errs where acc: "acc = (st, errs)" by (cases acc)
  let ?l2 = "TrimSpace (Join flds '','')"
  let ?l3 = "TrimSpace (Join flds [CHR 0x09])"
  have nosep2: "\<forall>f\<in>set flds. CHR '','' \<notin> set f"
    and nosep3: "\<forall>f\<in>set flds. CHR 0x09 \<notin> set f"
    and ends: "2 \<le> length flds \<longrightarrow> trimLeft (hd flds) \<noteq> [] \<and> trimRight (last flds) \<noteq> []"
    using Cons.prems by auto
  have blank: "?l2 = [] \<longleftrightarrow> ?l3 = []"
    using Split_TrimSpace_Join(2) [of "CHR '',''" flds, OF _ nosep2 ends]
          Split_TrimSpace_Join(2) [of "CHR 0x09" flds, OF _ nosep3 ends]
    by simp
  have rest: "scanLines Version2 (CHR '','') m (map (\<lambda>flds. Join flds '','') rest) a
       = scanLines Version3 (CHR 0x09) m (map (\<lambda>flds. Join flds [CHR 0x09]) rest) a"
    for m a
    using Cons.IH [of m a] Cons.prems by simp
  show ?case
  proof (cases "?l2 = []")
    case True
    then show ?thesis using blank rest by (simp add: acc)
  next
    case False
    then have "Split ?l2 (CHR '','') = Split ?l3 (CHR 0x09)"
      using blank
            Split_TrimSpace_Join(1) [of "CHR '',''" flds, OF _ nosep2 ends]
            Split_TrimSpace_Join(1) [of "CHR 0x09" flds, OF _ nosep3 ends]
      by simp
    then have "parseLine ?l2 st (n + 1) Version2 (CHR '','')
                 = parseLine ?l3 st (n + 1) Version3 (CHR 0x09)"
      by (intro parseLine_depends_on_fields) (simp_all add: Version1_def Version2_def Version3_def)
    then show ?thesis
      using False blank rest by (simp add: acc Let_def split: prod.splits option.splits)
  qed
qed

text \<open>
  C9, as stated, fails: for the one line with the fields \<open>TITLE\<close> and the empty text,
  neither of which holds a comma or a tab, version 2 reads \<open>TITLE,\<close> and sets the (empty)
  title without error, while version 3 reads \<open>TITLE\<close> followed by a tab, which the trimming
  of the line removes, and reports a TITLE line with one field.
\<close>

theorem version2_version3_differ:
  "CHR '','' \<notin> set ''TITLE'' \<and> CHR 0x09 \<notin> set ''TITLE''
   \<and> CHR '','' \<notin> set [] \<and> CHR 0x09 \<notin> set []
   \<and> Join [''TITLE'', []] '','' = ''TITLE,''
   \<and> Join [''TITLE'', []] [CHR 0x09] = ''TITLE'' @ [CHR 0x09]
   \<and> ParseFile (\<lambda>p. Inr (File (map (\<lambda>flds. Join flds '','') [[''TITLE'', []]]) None))
         ''status.log'' Version2
       = (Some emptyStatus, [])
   \<and> ParseFile (\<lambda>p. Inr (File (map (\<lambda>flds. Join flds [CHR 0x09]) [[''TITLE'', []]]) None))
         ''status.log'' Version3
       = (Some emptyStatus,
          [LineError \<lparr>Line = 1, FieldName = ''TITLE'', Value = ''TITLE'',
                       Err = ExpectedAtLeast 2 1\<rparr>])
   \<and> ParseFile (\<lambda>p. Inr (File (map (\<lambda>flds. Join flds '','') [[''TITLE'', []]]) None))
         ''status.log'' Version2
       \<noteq> ParseFile (\<lambda>p. Inr (File (map (\<lambda>flds. Join flds [CHR 0x09]) [[''TITLE'', []]])
                                  None))
           ''status.log'' Version3"
  by (simp add: ParseFile_def parseLine_def handleTitle_def TrimSpace_def trimLeft_def
        trimRight_def spaceRunes_def Version1_def Version2_def Version3_def emptyStatus_def
        Let_def)

text \<open>
  C9, amended. Take any sequence of field lists in which no field holds a comma or a tab
  and in which, for every list of two or more fields, the first field keeps some text
  when its leading white space is removed and the last field keeps some text when its
  trailing white space is removed. Then parsing the comma-joined lines under version 2 and
  parsing the tab-joined lines under version 3 return the same status and the same error
  list.
\<close>

theorem version2_version3_agree:
  assumes "\<forall>flds \<in> set fieldLists.
             (\<forall>f \<in> set flds. CHR '','' \<notin> set f \<and> CHR 0x09 \<notin> set f)
             \<and> (2 \<le> length flds \<longrightarrow>
                  trimLeft (hd flds) \<noteq> [] \<and> trimRight (last flds) \<noteq> [])"
  shows "ParseFile (\<lambda>p. Inr (File (map (\<lambda>flds. Join flds '','') fieldLists) readErr))
           filepath Version2
       = ParseFile (\<lambda>p. Inr (File (map (\<lambda>flds. Join flds [CHR 0x09]) fieldLists) readErr))
           filepath Version3"
  using scanLines_comma_tab [OF assms, of 0 "(emptyStatus, [])"]
  by (simp add: ParseFile_def Version2_def Version3_def)

theorem version2_version3_agree_witness:
  "ParseFile (\<lambda>p. Inr (File (map (\<lambda>flds. Join flds '','')
                 [[''TITLE'', ''My VPN''], [''TIME'', ''Thu Nov 27'', ''1732704645''],
                  [''CLIENT_LIST'', ''user1''], []]) None))
     ''status.log'' Version2
   = ParseFile (\<lambda>p. Inr (File (map (\<lambda>flds. Join flds [CHR 0x09])
                 [[''TITLE'', ''My VPN''], [''TIME'', ''Thu Nov 27'', ''1732704645''],
                  [''CLIENT_LIST'', ''user1''], []]) None))
     ''status.log'' Version3"
proof -
  have t: "trimLeft ''TITLE'' \<noteq> []" "trimLeft ''TIME'' \<noteq> []" "trimLeft ''CLIENT_LIST'' \<noteq> []"
    "trimRight ''My VPN'' \<noteq> []" "trimRight ''1732704645'' \<noteq> []" "trimRight ''user1'' \<noteq> []"
    by (simp_all add: trimLeft_def trimRight_def spaceRunes_def)
  show ?thesis
    by (rule version2_version3_agree) (simp add: t)
qed

section \<open>Repeated title and time lines\<close>

text \<open>
  C10. Under versions 2 and 3 (any version but 1) the title and the time fields are
  overwritten, not accumulated: after a whole parse the title is field 1 of the last TITLE
  line with at least two fields, and the time fields are the fields after the tag of the
  last TIME line with at least two fields, however many such lines the file holds; without
  such a line they stay empty.
\<close>

theorem last_title_and_time_win:
  assumes "version \<noteq> Version1"
      and "delimiter = (if version = Version3 then CHR 0x09 else CHR '','')"
      and "fs filepath = Inr (File entries readErr)"
      and "fieldLists = map (\<lambda>entry. Split (TrimSpace entry) delimiter)
                            (filter (\<lambda>entry. TrimSpace entry \<noteq> []) entries)"
      and "titleLines = filter (\<lambda>flds. flds ! 0 = ''TITLE'' \<and> 2 \<le> length flds) fieldLists"
      and "timeLines = filter (\<lambda>flds. flds ! 0 = ''TIME'' \<and> 2 \<le> length flds) fieldLists"
  shows "\<exists>status. fst (ParseFile fs filepath version) = Some status
           \<and> Title status = (if titleLines = [] then [] else last titleLines ! 1)
           \<and> Time status = (if timeLines = [] then [] else drop 1 (last timeLines))"
proof -
  let ?scan = "scanLines version delimiter 0 entries (emptyStatus, [])"
  have pf: "fst (ParseFile fs filepath version) = Some (fst ?scan)"
    using assms(2,3) by (simp add: ParseFile_def Let_def split: prod.splits option.splits)
  have title: "Title (fst ?scan) = (if titleLines = [] then [] else last titleLines ! 1)"
    using scanLines_last_wins [where get = Title and version = version and d = delimiter
            and valid = "\<lambda>flds. flds ! 0 = ''TITLE'' \<and> 2 \<le> length flds"
            and pick = "\<lambda>flds. flds ! 1" and n = 0 and entries = entries
            and st = emptyStatus and errs = "[]", OF parseLine_Title [OF assms(1)]]
    by (simp add: assms(4,5) Let_def emptyStatus_def)
  have time: "Time (fst ?scan) = (if timeLines = [] then [] else drop 1 (last timeLines))"
    using scanLines_last_wins [where get = Time and version = version and d = delimiter
            and valid = "\<lambda>flds. flds ! 0 = ''TIME'' \<and> 2 \<le> length flds"
            and pick = "\<lambda>flds. drop 1 flds" and n = 0 and entries = entries
            and st = emptyStatus and errs = "[]", OF parseLine_Time [OF assms(1)]]
    by (simp add: assms(4,6) Let_def emptyStatus_def)
  show ?thesis using pf title time by simp
qed

theorem last_title_and_time_win_witness:
  "\<exists>status.
      fst (ParseFile
             (\<lambda>p. Inr (File [''TITLE,first'', ''TIME,a,1'', ''TITLE,second'', ''TIME,b,2'',
                              ''TITLE'', ''TIME''] None))
             ''status.log'' Version2) = Some status
      \<and> Title status = ''second'' \<and> Time status = [''b'', ''2'']"
proof -
  have t: "TrimSpace ''TITLE,first'' = ''TITLE,first''" "TrimSpace ''TIME,a,1'' = ''TIME,a,1''"
    "TrimSpace ''TITLE,second'' = ''TITLE,second''" "TrimSpace ''TIME,b,2'' = ''TIME,b,2''"
    "TrimSpace ''TITLE'' = ''TITLE''" "TrimSpace ''TIME'' = ''TIME''"
    by (simp_all add: TrimSpace_def trimLeft_def trimRight_def spaceRunes_def)
  show ?thesis
    using last_title_and_time_win [where version = Version2 and delimiter = "CHR '',''"
            and fs = "\<lambda>p. Inr (File [''TITLE,first'', ''TIME,a,1'', ''TITLE,second'',
                                        ''TIME,b,2'', ''TITLE'', ''TIME''] None)"
            and filepath = "''status.log''"
            and entries = "[''TITLE,first'', ''TIME,a,1'', ''TITLE,second'', ''TIME,b,2'',
                            ''TITLE'', ''TIME'']"
            and readErr = None
            and fieldLists = "[[''TITLE'', ''first''], [''TIME'', ''a'', ''1''],
                               [''TITLE'', ''second''], [''TIME'', ''b'', ''2''],
                               [''TITLE''], [''TIME'']]"
            and titleLines = "[[''TITLE'', ''first''], [''TITLE'', ''second'']]"
            and timeLines = "[[''TIME'', ''a'', ''1''], [''TIME'', ''b'', ''2'']]"]
    by (simp add: t Version1_def Version2_def Version3_def)
qed

end
